theory Spec2Isabelle
  imports Main
begin

section \<open>Notifications backend: the handlers\<close>

text \<open>
  The handlers \<open>createNotification\<close> and \<open>getNotifications\<close> of the notifications
  backend. Both receive their collaborators as arguments: the Knex database client and
  the catalog client. The model keeps that shape. The table \<open>messages\<close> is a list of rows
  in the order the database returns them; the catalog is a function from an entity
  reference to the entity, if there is one.
\<close>

subsection \<open>Data\<close>

text \<open>A \<open>Date\<close> is kept as a time stamp.\<close>

type_synonym Date = int

text \<open>
  \<open>CreateNotificationRequest\<close> (types.ts). An optional property is an \<open>option\<close>;
  \<open>None\<close> is JavaScript's \<open>undefined\<close>.
\<close>

record CreateNotificationRequest =
  req_origin :: string
  req_title :: string
  req_message :: "string option"
  req_actions :: "(string \<times> string) list option"
  req_topic :: "string option"
  req_targetUsers :: "string list option"
  req_targetGroups :: "string list option"

text \<open>\<open>MessagesInsert\<close>: the object literal \<open>row\<close> of \<open>createNotification\<close>.\<close>

record MessagesInsert =
  ins_origin :: string
  ins_title :: string
  ins_message :: "string option"
  ins_topic :: "string option"

text \<open>
  A row of the table \<open>messages\<close>, with the columns \<open>getNotifications\<close> reads:
  \<open>id\<close>, \<open>created\<close>, \<open>origin\<close>, \<open>title\<close>, \<open>message\<close>, \<open>topic\<close>.
\<close>

record Message =
  msg_id :: string
  msg_created :: Date
  msg_origin :: string
  msg_title :: string
  msg_message :: "string option"
  msg_topic :: "string option"

text \<open>
  The \<open>Notification\<close> object that \<open>getNotifications\<close> builds: exactly the seven
  properties of its object literal.
\<close>

record Notification =
  ntf_id :: string
  ntf_created :: Date
  readByUser :: bool
  ntf_origin :: string
  ntf_title :: string
  ntf_message :: "string option"
  ntf_topic :: "string option"

text \<open>\<open>NotificationsFilter\<close>, as far as \<open>addFilter\<close> reads it.\<close>

record NotificationsFilter =
  containsText :: "string option"
  createdAfter :: "Date option"

text \<open>\<open>new Error(msg)\<close>.\<close>

datatype Error = Error string

text \<open>
  \<open>catalogClient.getEntityByRef\<close>: the entity of a reference, \<open>None\<close> for
  \<open>undefined\<close>. An entity is an object, hence always truthy.
\<close>

type_synonym 'e CatalogClient = "string \<Rightarrow> 'e option"

subsection \<open>Numbers\<close>

text \<open>
  \<open>pageSize\<close> and \<open>pageNumber\<close> are JavaScript numbers, that is, doubles. The router
  passes the results of \<open>Number.parseInt\<close>: a double whose value is an integer, or an
  infinity (for a digit string beyond the range), or \<open>NaN\<close>, which the router refuses.
  \<open>Finite n\<close> is the double of the integer value \<open>n\<close> (only integers that are doubles
  occur as arguments); the two zeros are not told apart, since the handler only compares
  them and never passes a negative zero on.
\<close>

datatype JsNumber = Finite int | PosInfinity | NegInfinity | NaN

text \<open>The number of binary digits of a positive integer.\<close>

function bitLength :: "int \<Rightarrow> nat" where
  "bitLength n = (if n \<le> 0 then 0 else Suc (bitLength (n div 2)))"
  by pat_completeness auto
termination
  by (relation "measure nat") auto

declare bitLength.simps [simp del]

text \<open>
  The double nearest to an integer, as every arithmetic operation on doubles rounds its
  exact result: 53 significant binary digits are kept, a tie goes to the even
  neighbour, and a magnitude of \<open>2 ^ 1024\<close> or more after rounding is an infinity.
\<close>

definition roundDouble :: "int \<Rightarrow> JsNumber" where
  "roundDouble x =
     (let a = \<bar>x\<bar>; e = bitLength a in
      if e \<le> 53 then Finite x
      else
        (let s = e - 53;
             q = a div 2 ^ s;
             r = a mod 2 ^ s;
             h = 2 ^ (s - 1);
             m = (if h < r \<or> (r = h \<and> odd q) then q + 1 else q) * 2 ^ s
         in if 2 ^ 1024 \<le> m then (if x < 0 then NegInfinity else PosInfinity)
            else Finite (if x < 0 then - m else m)))"

text \<open>\<open>x < y\<close>: false when either side is \<open>NaN\<close>.\<close>

fun js_less :: "JsNumber \<Rightarrow> JsNumber \<Rightarrow> bool" where
  "js_less NaN y = False"
| "js_less x NaN = False"
| "js_less (Finite a) (Finite b) = (a < b)"
| "js_less (Finite a) PosInfinity = True"
| "js_less (Finite a) NegInfinity = False"
| "js_less NegInfinity NegInfinity = False"
| "js_less NegInfinity y = True"
| "js_less PosInfinity y = False"

text \<open>\<open>x == y\<close> on numbers: false when either side is \<open>NaN\<close>.\<close>

fun js_equal :: "JsNumber \<Rightarrow> JsNumber \<Rightarrow> bool" where
  "js_equal NaN y = False"
| "js_equal x NaN = False"
| "js_equal x y = (x = y)"

fun js_sign :: "JsNumber \<Rightarrow> int" where
  "js_sign (Finite a) = sgn a"
| "js_sign PosInfinity = 1"
| "js_sign NegInfinity = - 1"
| "js_sign NaN = 0"

text \<open>\<open>x - y\<close>\<close>

fun js_minus :: "JsNumber \<Rightarrow> JsNumber \<Rightarrow> JsNumber" where
  "js_minus NaN y = NaN"
| "js_minus x NaN = NaN"
| "js_minus (Finite a) (Finite b) = roundDouble (a - b)"
| "js_minus (Finite a) PosInfinity = NegInfinity"
| "js_minus (Finite a) NegInfinity = PosInfinity"
| "js_minus PosInfinity PosInfinity = NaN"
| "js_minus PosInfinity y = PosInfinity"
| "js_minus NegInfinity NegInfinity = NaN"
| "js_minus NegInfinity y = NegInfinity"

text \<open>\<open>x * y\<close>: zero times an infinity is \<open>NaN\<close>.\<close>

fun js_times :: "JsNumber \<Rightarrow> JsNumber \<Rightarrow> JsNumber" where
  "js_times NaN y = NaN"
| "js_times x NaN = NaN"
| "js_times (Finite a) (Finite b) = roundDouble (a * b)"
| "js_times x y =
     (if js_sign x * js_sign y = 0 then NaN
      else if 0 < js_sign x * js_sign y then PosInfinity else NegInfinity)"

subsection \<open>The query builder\<close>

text \<open>
  A Knex query under construction is the record of what has been chained onto it: the
  table, the conditions, and the arguments of \<open>limit\<close> and \<open>offset\<close>. The two
  conditions are the ones \<open>addFilter\<close> adds; \<open>TitleOrMessageILike p\<close> stands for
  \<open>where(title ILIKE p OR message ILIKE p)\<close> and \<open>CreatedGreater d\<close> for
  \<open>andWhere('created', '>', d)\<close>.
\<close>

datatype Condition = TitleOrMessageILike string | CreatedGreater Date

record Query =
  q_table :: string
  q_where :: "Condition list"
  q_limit :: "JsNumber option"
  q_offset :: "JsNumber option"


text \<open>\<open>dbClient('messages').select('*')\<close>\<close>

definition select_all :: "string \<Rightarrow> Query" where
  "select_all t = \<lparr>q_table = t, q_where = [], q_limit = None, q_offset = None\<rparr>"

text \<open>
  \<open>addFilter\<close>. The tests \<open>if (filter.containsText)\<close> and \<open>if (filter.createdAfter)\<close>
  are truthiness tests: an absent property and the empty string are falsy, a \<open>Date\<close>
  object is truthy.
\<close>

definition addFilter :: "Query \<Rightarrow> NotificationsFilter \<Rightarrow> Query" where
  "addFilter query filter' =
     (let query1 =
            (case containsText filter' of
               None \<Rightarrow> query
             | Some t \<Rightarrow>
                 if t = [] then query
                 else query\<lparr>q_where := q_where query @ [TitleOrMessageILike (''%'' @ t @ ''%'')]\<rparr>)
      in case createdAfter filter' of
           None \<Rightarrow> query1
         | Some d \<Rightarrow> query1\<lparr>q_where := q_where query1 @ [CreatedGreater d]\<rparr>)"

subsection \<open>getNotifications\<close>

text \<open>
  The query \<open>getNotifications\<close> has built when it awaits it (the statements between the
  argument check and \<open>await query\<close>).
\<close>

definition getNotifications_query ::
  "NotificationsFilter \<Rightarrow> JsNumber \<Rightarrow> JsNumber \<Rightarrow> Query"
where
  "getNotifications_query filter' pageSize pageNumber =
     (let query = addFilter (select_all ''messages'') filter'
      in if js_less (Finite 0) pageNumber
         then query\<lparr>q_limit := Some pageSize,
                     q_offset := Some (js_times (js_minus pageNumber (Finite 1)) pageSize)\<rparr>
         else query)"

text \<open>The object literal inside \<open>messages.map\<close>.\<close>

definition toNotification :: "Message \<Rightarrow> Notification" where
  "toNotification message =
     \<lparr>ntf_id = msg_id message,
      ntf_created = msg_created message,
      readByUser = False,
      ntf_origin = msg_origin message,
      ntf_title = msg_title message,
      ntf_message = msg_message message,
      ntf_topic = msg_topic message\<rparr>"

text \<open>
  \<open>getNotifications\<close>. The database client is the function that runs a query and gives
  its rows. \<open>Inl\<close> is the thrown error.
\<close>

definition getNotifications ::
  "(Query \<Rightarrow> Message list) \<Rightarrow> NotificationsFilter \<Rightarrow> JsNumber \<Rightarrow> JsNumber \<Rightarrow>
   Error + Notification list"
where
  "getNotifications dbClient filter' pageSize pageNumber =
     (if js_less pageSize (Finite 0) \<or> js_less pageNumber (Finite 0) \<or>
         js_equal pageSize (Finite 0) \<and> js_less (Finite 0) pageNumber \<or>
         js_less (Finite 0) pageSize \<and> js_equal pageNumber (Finite 0)
      then Inl (Error ''pageSize and pageNumber must both be either 0 or greater than 0'')
      else Inr (map toNotification (dbClient (getNotifications_query filter' pageSize pageNumber))))"

subsection \<open>createNotification\<close>

text \<open>
  The check of one list of references: every lookup is started, and
  \<open>Promise.all\<close> rejects when a lookup finds nothing. Which rejection \<open>Promise.all\<close>
  reports depends on the order in which the lookups settle; the model reports the first
  missing entry of the list. \<open>kind\<close> is \<open>group\<close> or \<open>user\<close>.
\<close>

definition quote :: string where
  "quote = [CHR 0x27]"

definition checkRefs :: "'e CatalogClient \<Rightarrow> string \<Rightarrow> string list \<Rightarrow> Error option" where
  "checkRefs catalogClient kind names =
     (case find (\<lambda>n. catalogClient (kind @ '':'' @ n) = None) names of
        None \<Rightarrow> None
      | Some n \<Rightarrow> Some (Error (kind @ '' '' @ quote @ n @ quote @ '' does not exist'')))"

text \<open>
  \<open>insert(row).returning('id')\<close> on the table: the database appends one row, whose
  \<open>id\<close> and \<open>created\<close> columns it fills itself, and returns the new row's id. The
  generator \<open>fresh\<close> stands for those column defaults.
\<close>

definition insert_returning_id ::
  "(Message list \<Rightarrow> string \<times> Date) \<Rightarrow> MessagesInsert \<Rightarrow> Message list \<Rightarrow> string \<times> Message list"
where
  "insert_returning_id fresh row messages =
     (let (i, c) = fresh messages
      in (i, messages @
            [\<lparr>msg_id = i, msg_created = c, msg_origin = ins_origin row, msg_title = ins_title row,
              msg_message = ins_message row, msg_topic = ins_topic row\<rparr>]))"

text \<open>
  \<open>createNotification\<close>, with the table passed in and returned. \<open>Inl\<close> is the thrown
  error, \<open>Inr\<close> the \<open>msgid\<close> of the result.
\<close>

definition createNotification ::
  "(Message list \<Rightarrow> string \<times> Date) \<Rightarrow> 'e CatalogClient \<Rightarrow> CreateNotificationRequest \<Rightarrow>
   Message list \<Rightarrow> (Error + string) \<times> Message list"
where
  "createNotification fresh catalogClient req messages =
     (case (case req_targetGroups req of
              None \<Rightarrow> None
            | Some groups \<Rightarrow> checkRefs catalogClient ''group'' groups) of
        Some e \<Rightarrow> (Inl e, messages)
      | None \<Rightarrow>
          (case (case req_targetUsers req of
                   None \<Rightarrow> None
                 | Some users \<Rightarrow> checkRefs catalogClient ''user'' users) of
             Some e \<Rightarrow> (Inl e, messages)
           | None \<Rightarrow>
               (let row = \<lparr>ins_origin = req_origin req, ins_title = req_title req,
                           ins_message = req_message req, ins_topic = req_topic req\<rparr>;
                    (msgid, messages') = insert_returning_id fresh row messages
                in (Inr msgid, messages'))))"

section \<open>Orchestrator backend: the input-schema route\<close>

text \<open>
  The handler of \<open>GET /workflows/:workflowId/inputSchema\<close> in \<open>router.ts\<close>. It reaches
  all its collaborators through the \<open>services\<close> object, so the model takes the services
  as a record of functions and follows the handler statement by statement. Besides the
  outcome of the request, the model returns the list of the service calls the handler
  made, in order.
\<close>

subsection \<open>JSON values and truthiness\<close>

text \<open>
  \<open>JsonValue\<close> and \<open>JsonObject\<close> of \<open>@backstage/types\<close>. An object is the list of its
  own properties in enumeration order; a property may hold \<open>undefined\<close>, which is
  \<open>None\<close>. Numbers are the integers: instance variables arrive as JSON, which has no
  \<open>NaN\<close>, and only the test against zero matters here.
\<close>

datatype JsonValue =
    JNull
  | JBool bool
  | JNumber int
  | JString string
  | JArray "JsonValue list"
  | JObject "(string \<times> JsonValue option) list"

type_synonym JsonObject = "(string \<times> JsonValue option) list"

text \<open>\<open>Object.keys(item)\<close>\<close>

definition Object_keys :: "JsonObject \<Rightarrow> string list" where
  "Object_keys item = map fst item"

text \<open>\<open>item[key]\<close>: \<open>undefined\<close> when the object has no such property.\<close>

definition property :: "JsonObject \<Rightarrow> string \<Rightarrow> JsonValue option" where
  "property item key = (case map_of item key of None \<Rightarrow> None | Some v \<Rightarrow> v)"

text \<open>
  The truthiness of a value in \<open>if (v)\<close>: \<open>undefined\<close>, \<open>null\<close>, \<open>false\<close>, \<open>0\<close> and the
  empty string are falsy; every object and array is truthy.
\<close>

fun truthy :: "JsonValue option \<Rightarrow> bool" where
  "truthy None = False"
| "truthy (Some JNull) = False"
| "truthy (Some (JBool b)) = b"
| "truthy (Some (JNumber n)) = (n \<noteq> 0)"
| "truthy (Some (JString s)) = (s \<noteq> [])"
| "truthy (Some (JArray xs)) = True"
| "truthy (Some (JObject obj)) = True"

text \<open>The truthiness of a \<open>string | undefined\<close>.\<close>

fun truthy_string :: "string option \<Rightarrow> bool" where
  "truthy_string None = False"
| "truthy_string (Some s) = (s \<noteq> [])"

subsection \<open>The data of the route\<close>

text \<open>
  The workflow definition, as far as the handler reads it: \<open>dataInputSchema\<close> is a
  string or an object with a \<open>schema\<close> string, or absent.
\<close>

datatype DataInputSchema = SchemaRef string | SchemaObject string bool

fun truthy_dataInputSchema :: "DataInputSchema option \<Rightarrow> bool" where
  "truthy_dataInputSchema None = False"
| "truthy_dataInputSchema (Some (SchemaRef s)) = (s \<noteq> [])"
| "truthy_dataInputSchema (Some (SchemaObject s b)) = True"

record WorkflowDefinition =
  definition_id :: string
  dataInputSchema :: "DataInputSchema option"

text \<open>
  \<open>WorkflowInfo\<close>, as far as the handler reads it. \<open>'i\<close> is the type of the runtime
  input schema (a JSON schema).
\<close>

record 'i WorkflowInfo =
  serviceUrl :: "string option"
  inputSchema :: "'i option"

record WorkflowItem =
  item_uri :: string
  item_definition :: WorkflowDefinition

record InitialState =
  state_values :: "JsonObject list"
  readonlyKeys :: "string list"

text \<open>\<open>WorkflowDataInputSchemaResponse\<close>; \<open>'s\<close> is the type of one parsed schema.\<close>

record 's WorkflowDataInputSchemaResponse =
  workflowItem :: WorkflowItem
  schemas :: "'s list"
  initialState :: InitialState

text \<open>
  What the client gets: the handler threw (the framework turns the rejection into an
  error response), or it sent a status with a text or a JSON body.
\<close>

datatype 's Body = Text string | Json "'s WorkflowDataInputSchemaResponse"

datatype 's Outcome = Threw string | Sent nat "'s Body"

text \<open>
  The services. An awaited call gives \<open>Inl e\<close> when its promise rejects with \<open>e\<close>.
  \<open>parseComposition\<close> is synchronous and may throw; \<open>Inl e\<close> is its exception.
\<close>

record ('i, 's) Services =
  getWorkflowDefinition :: "string \<Rightarrow> string + 'i WorkflowInfo"
  fetchWorkflowDefinition :: "string \<Rightarrow> string + WorkflowDefinition option"
  fetchWorkflowUri :: "string \<Rightarrow> string + string option"
  fetchWorkflowInfo :: "string \<Rightarrow> string \<Rightarrow> string + 'i WorkflowInfo option"
  parseComposition :: "'i \<Rightarrow> string + 's list"
  extractInitialStateFromWorkflowData :: "JsonValue \<Rightarrow> 's list \<Rightarrow> JsonObject list"
  fetchProcessInstanceVariables :: "string \<Rightarrow> string + JsonObject option"

text \<open>The calls on the services, as the trace records them.\<close>

datatype Call =
    GetWorkflowDefinition string
  | FetchWorkflowDefinition string
  | FetchWorkflowUri string
  | FetchWorkflowInfo string string
  | ParseComposition
  | FetchProcessInstanceVariables string
  | ExtractInitialStateFromWorkflowData JsonValue

text \<open>
  Modelled from the spec: \<open>WORKFLOW_DATA_KEY\<close>, imported from \<open>./constants\<close>, is the
  one well-known top-level key under which the instance variables hold the workflow
  data. No result below depends on its spelling.
\<close>

definition WORKFLOW_DATA_KEY :: string where
  "WORKFLOW_DATA_KEY = ''workflowdata''"

subsection \<open>The handler\<close>

text \<open>The text of the 500 responses: \<open>Couldn't fetch <what> <workflowId>\<close>.\<close>

definition couldnt_fetch :: "string \<Rightarrow> string \<Rightarrow> string" where
  "couldnt_fetch what workflowId = ''Couldn'' @ quote @ ''t fetch '' @ what @ '' '' @ workflowId"

text \<open>
  From \<open>getWorkflowDefinition\<close> to \<open>parseComposition\<close>: either the request ends here
  (\<open>Inl\<close>, with the outcome), or the handler goes on with the prepared \<open>response\<close> and the
  parsed \<open>schemas\<close> (\<open>Inr\<close>).
\<close>

definition resolveSchemas ::
  "('i, 's) Services \<Rightarrow> string \<Rightarrow>
   ('s Outcome + 's WorkflowDataInputSchemaResponse \<times> 's list) \<times> Call list"
where
  "resolveSchemas services workflowId =
   (let c1 = [GetWorkflowDefinition workflowId] in
    case getWorkflowDefinition services workflowId of
      Inl e \<Rightarrow> (Inl (Threw e), c1)
    | Inr workflowDefinition \<Rightarrow>
      (case serviceUrl workflowDefinition of
        None \<Rightarrow> (Inl (Threw (''ServiceUrl is not defined for workflow '' @ workflowId)), c1)
      | Some url \<Rightarrow>
        if url = [] then (Inl (Threw (''ServiceUrl is not defined for workflow '' @ workflowId)), c1)
        else
        (let c2 = c1 @ [FetchWorkflowDefinition workflowId] in
         case fetchWorkflowDefinition services workflowId of
           Inl e \<Rightarrow> (Inl (Threw e), c2)
         | Inr None \<Rightarrow>
             (Inl (Sent 500 (Text (couldnt_fetch ''workflow definition'' workflowId))), c2)
         | Inr (Some definition) \<Rightarrow>
           (let c3 = c2 @ [FetchWorkflowUri workflowId] in
            case fetchWorkflowUri services workflowId of
              Inl e \<Rightarrow> (Inl (Threw e), c3)
            | Inr None \<Rightarrow>
                (Inl (Sent 500 (Text (couldnt_fetch ''workflow uri'' workflowId))), c3)
            | Inr (Some uri) \<Rightarrow>
              if uri = [] then
                (Inl (Sent 500 (Text (couldnt_fetch ''workflow uri'' workflowId))), c3)
              else
              (let response =
                     \<lparr>workflowItem = \<lparr>item_uri = uri, item_definition = definition\<rparr>,
                      schemas = [],
                      initialState = \<lparr>state_values = [], readonlyKeys = []\<rparr>\<rparr>
               in
               if \<not> truthy_dataInputSchema (dataInputSchema definition) then
                 (Inl (Sent 200 (Json response)), c3)
               else
               (let c4 = c3 @ [FetchWorkflowInfo workflowId url] in
                case fetchWorkflowInfo services workflowId url of
                  Inl e \<Rightarrow> (Inl (Threw e), c4)
                | Inr None \<Rightarrow>
                    (Inl (Sent 500 (Text (couldnt_fetch ''workflow info'' workflowId))), c4)
                | Inr (Some workflowInfo) \<Rightarrow>
                  (case inputSchema workflowInfo of
                    None \<Rightarrow>
                      (Inl (Sent 500
                         (Text (couldnt_fetch ''workflow input schema'' workflowId))), c4)
                  | Some schema \<Rightarrow>
                    (case parseComposition services schema of
                      Inl e \<Rightarrow> (Inl (Threw e), c4 @ [ParseComposition])
                    | Inr parsed \<Rightarrow> (Inr (response, parsed), c4 @ [ParseComposition])))))))))"

text \<open>
  The workflow data of an instance, as the handler reads it for \<open>instanceId\<close> and again,
  with the same statements, for \<open>assessmentInstanceId\<close>:
  \<open>id ? await fetchProcessInstanceVariables(id) : undefined\<close>, then
  \<open>variables?.[WORKFLOW_DATA_KEY]\<close>.
\<close>

definition instanceWorkflowData ::
  "('i, 's) Services \<Rightarrow> string option \<Rightarrow> (string + JsonValue option) \<times> Call list"
where
  "instanceWorkflowData services instanceId =
   (case instanceId of
      None \<Rightarrow> (Inr None, [])
    | Some i \<Rightarrow>
      if i = [] then (Inr None, [])
      else
      (case fetchProcessInstanceVariables services i of
         Inl e \<Rightarrow> (Inl e, [FetchProcessInstanceVariables i])
       | Inr None \<Rightarrow> (Inr None, [FetchProcessInstanceVariables i])
       | Inr (Some instanceVariables) \<Rightarrow>
           (Inr (property instanceVariables WORKFLOW_DATA_KEY), [FetchProcessInstanceVariables i])))"

text \<open>
  \<open>let initialState = []; if (instanceWorkflowData) initialState = extractInitialStateFromWorkflowData(...)\<close>: the
  initial state of the primary instance.
\<close>

definition primaryInitialState ::
  "('i, 's) Services \<Rightarrow> 's list \<Rightarrow> JsonValue option \<Rightarrow> JsonObject list \<times> Call list"
where
  "primaryInitialState services parsed instanceWorkflowData' =
   (case instanceWorkflowData' of
      None \<Rightarrow> ([], [])
    | Some workflowData \<Rightarrow>
      if truthy (Some workflowData)
      then (extractInitialStateFromWorkflowData services workflowData parsed,
            [ExtractInitialStateFromWorkflowData workflowData])
      else ([], []))"

text \<open>
  \<open>if (assessmentInstanceWorkflowData) { const assessmentInstanceInitialState =
  extractInitialStateFromWorkflowData(...) }\<close>: the initial state of the assessment instance, \<open>None\<close> when the block is
  skipped.
\<close>

definition assessmentInstanceInitialState ::
  "('i, 's) Services \<Rightarrow> 's list \<Rightarrow> JsonValue option \<Rightarrow> JsonObject list option \<times> Call list"
where
  "assessmentInstanceInitialState services parsed assessmentInstanceWorkflowData =
   (case assessmentInstanceWorkflowData of
      None \<Rightarrow> (None, [])
    | Some workflowData \<Rightarrow>
      if truthy (Some workflowData)
      then (Some (extractInitialStateFromWorkflowData services workflowData parsed),
            [ExtractInitialStateFromWorkflowData workflowData])
      else (None, []))"

text \<open>
  The rest of the block under \<open>if (assessmentInstanceWorkflowData)\<close>, and what
  \<open>initialState\<close> and \<open>readonlyKeys\<close> are when the block is skipped:
  \<open>if (initialState.length === 0) initialState = assessmentInstanceInitialState\<close>, and
  \<open>readonlyKeys = assessmentInstanceInitialState.map(item =>
  Object.keys(item).filter(key => item[key] !== undefined)).flat()\<close>.
\<close>

definition definedKeys :: "JsonObject list \<Rightarrow> string list" where
  "definedKeys assessment =
     concat (map (\<lambda>item. filter (\<lambda>key. property item key \<noteq> None) (Object_keys item)) assessment)"

definition merge :: "JsonObject list \<Rightarrow> JsonObject list option \<Rightarrow> InitialState" where
  "merge initialState' assessment =
   (case assessment of
      None \<Rightarrow> \<lparr>state_values = initialState', readonlyKeys = []\<rparr>
    | Some assessmentState \<Rightarrow>
        \<lparr>state_values = (if length initialState' = 0 then assessmentState else initialState'),
         readonlyKeys = definedKeys assessmentState\<rparr>)"

text \<open>The whole handler.\<close>

definition inputSchemaRoute ::
  "('i, 's) Services \<Rightarrow> string \<Rightarrow> string option \<Rightarrow> string option \<Rightarrow> 's Outcome \<times> Call list"
where
  "inputSchemaRoute services workflowId instanceId assessmentInstanceId =
   (case resolveSchemas services workflowId of
      (Inl outcome, c1) \<Rightarrow> (outcome, c1)
    | (Inr (response, parsed), c1) \<Rightarrow>
      (case instanceWorkflowData services instanceId of
         (Inl e, c2) \<Rightarrow> (Threw e, c1 @ c2)
       | (Inr primaryData, c2) \<Rightarrow>
         (case primaryInitialState services parsed primaryData of
            (primary, c3) \<Rightarrow>
            (case instanceWorkflowData services assessmentInstanceId of
               (Inl e, c4) \<Rightarrow> (Threw e, c1 @ c2 @ c3 @ c4)
             | (Inr assessmentData, c4) \<Rightarrow>
               (case assessmentInstanceInitialState services parsed assessmentData of
                  (assessment, c5) \<Rightarrow>
                    (Sent 200
                       (Json (response\<lparr>schemas := parsed,
                                       initialState := merge primary assessment\<rparr>)),
                     c1 @ c2 @ c3 @ c4 @ c5))))))"

subsection \<open>The schema service\<close>

text \<open>
  \<open>DataInputSchemaService\<close> is not among the sources. The definitions below follow
  the specification's description of it; the results about the handler hold for any
  services, and these serve where a concrete service is needed.
\<close>

text \<open>
  Modelled from the spec: a \<open>SchemaFragment\<close>, one step of the form: an identifier, a
  label and the ordered list of its field names.
\<close>

record SchemaFragment =
  fragment_id :: string
  fragment_label :: string
  fragment_fields :: "string list"

text \<open>
  Modelled from the spec: a member of a composition, with an identifier, a label and,
  when the member has the structural shape of a schema, its field list; and the
  \<open>InputSchemaDefinition\<close>, a plain schema or a composition of members.
\<close>

record CompositionMember =
  member_id :: string
  member_label :: string
  member_fields :: "string list option"

datatype InputSchemaDefinition = FlatSchema SchemaFragment | ComposedSchema "CompositionMember list"

text \<open>
  Modelled from the spec: the members of a composition, parsed in declaration order, one
  fragment per member; the parse fails with a \<open>SchemaError\<close> that names the member when
  a member has no field list. (References inside a member are taken as resolved.)
\<close>

fun parseMembers :: "CompositionMember list \<Rightarrow> string + SchemaFragment list" where
  "parseMembers [] = Inr []"
| "parseMembers (m # ms) =
     (case member_fields m of
        None \<Rightarrow> Inl (''SchemaError: '' @ member_id m)
      | Some names \<Rightarrow>
          (case parseMembers ms of
             Inl e \<Rightarrow> Inl e
           | Inr fragments \<Rightarrow>
               Inr (\<lparr>fragment_id = member_id m, fragment_label = member_label m,
                      fragment_fields = names\<rparr> # fragments)))"

text \<open>
  Modelled from the spec: \<open>parseComposition\<close> of \<open>DataInputSchemaService\<close>. A plain
  schema gives a single fragment with all its fields, a composition the fragments of
  its members.
\<close>

fun parse :: "InputSchemaDefinition \<Rightarrow> string + SchemaFragment list" where
  "parse (FlatSchema fragment) = Inr [fragment]"
| "parse (ComposedSchema members) = parseMembers members"

text \<open>
  Modelled from the spec: \<open>extractInitialStateFromWorkflowData\<close> of
  \<open>DataInputSchemaService\<close>. For each fragment, for each of its field names, the value
  under that name in the workflow data; a field is included only if its value is present
  and not \<open>undefined\<close>. Workflow data that is not an object has no fields.
\<close>

definition extractInitialState :: "JsonValue \<Rightarrow> SchemaFragment list \<Rightarrow> JsonObject list" where
  "extractInitialState workflowData fragments =
     map (\<lambda>fragment.
            concat (map (\<lambda>name.
                           case workflowData of
                             JObject variables \<Rightarrow>
                               (case property variables name of
                                  None \<Rightarrow> []
                                | Some v \<Rightarrow> [(name, Some v)])
                           | _ \<Rightarrow> [])
                        (fragment_fields fragment)))
         fragments"

subsection \<open>Services for the scenarios\<close>

text \<open>
  Services that answer every lookup without rejecting: the data index gives the service
  url \<open>url\<close>, the workflow engine the definition, the uri and, as the runtime input
  schema, \<open>schema\<close>; the schema service is the one above; \<open>instances\<close> holds the
  variables of the process instances. They serve to run the handler on the scenarios of
  the specification.
\<close>

definition scenarioServices ::
  "string option \<Rightarrow> WorkflowDefinition option \<Rightarrow> string option \<Rightarrow> InputSchemaDefinition option \<Rightarrow>
   (string \<Rightarrow> JsonObject option) \<Rightarrow> (InputSchemaDefinition, SchemaFragment) Services"
where
  "scenarioServices url definition uri schema instances =
     \<lparr>getWorkflowDefinition = (\<lambda>w. Inr \<lparr>serviceUrl = url, inputSchema = None\<rparr>),
      fetchWorkflowDefinition = (\<lambda>w. Inr definition),
      fetchWorkflowUri = (\<lambda>w. Inr uri),
      fetchWorkflowInfo = (\<lambda>w u. Inr (Some \<lparr>serviceUrl = Some u, inputSchema = schema\<rparr>)),
      parseComposition = parse,
      extractInitialStateFromWorkflowData = extractInitialState,
      fetchProcessInstanceVariables = (\<lambda>i. Inr (instances i))\<rparr>"

text \<open>
  The schema of the scenarios: the fragments \<open>personal\<close>, with the fields \<open>name\<close> and
  \<open>age\<close>, and \<open>contact\<close>, with the field \<open>email\<close>.
\<close>

definition personal :: SchemaFragment where
  "personal = \<lparr>fragment_id = ''personal'', fragment_label = ''Personal'',
               fragment_fields = [''name'', ''age'']\<rparr>"

definition contact :: SchemaFragment where
  "contact = \<lparr>fragment_id = ''contact'', fragment_label = ''Contact'',
              fragment_fields = [''email'']\<rparr>"

definition twoFragments :: InputSchemaDefinition where
  "twoFragments =
     ComposedSchema
       [\<lparr>member_id = ''personal'', member_label = ''Personal'',
          member_fields = Some [''name'', ''age'']\<rparr>,
        \<lparr>member_id = ''contact'', member_label = ''Contact'',
          member_fields = Some [''email'']\<rparr>]"

text \<open>A workflow definition that declares an input schema, and one that declares none.\<close>

definition withInputSchema :: WorkflowDefinition where
  "withInputSchema = \<lparr>definition_id = ''wf'', dataInputSchema = Some (SchemaRef ''schema.json'')\<rparr>"

definition withoutInputSchema :: WorkflowDefinition where
  "withoutInputSchema = \<lparr>definition_id = ''wf'', dataInputSchema = None\<rparr>"

text \<open>The variables of an instance whose workflow data is the object \<open>data\<close>.\<close>

definition variablesWith :: "JsonObject \<Rightarrow> JsonObject" where
  "variablesWith data = [(WORKFLOW_DATA_KEY, Some (JObject data))]"

text \<open>The values of the scenarios.\<close>

definition ann :: "string \<times> JsonValue option" where
  "ann = (''name'', Some (JString ''Ann''))"

definition thirty :: "string \<times> JsonValue option" where
  "thirty = (''age'', Some (JNumber 30))"

definition mail :: "string \<times> JsonValue option" where
  "mail = (''email'', Some (JString ''a@x.com''))"

text \<open>
  The instances of the scenarios: \<open>p1\<close> holds \<open>{name: "Ann"}\<close>, \<open>p0\<close> holds workflow
  data with no field, \<open>a1\<close> holds \<open>{name: "Ann", age: 30, email: "a@x.com"}\<close> and \<open>a2\<close>
  holds \<open>{age: 30, email: "a@x.com"}\<close>; the variables of \<open>nokey\<close> have nothing under
  the workflow-data key, those of \<open>null\<close> have \<open>null\<close> there; no other instance is known.
\<close>

definition scenarioInstances :: "string \<Rightarrow> JsonObject option" where
  "scenarioInstances i =
     (if i = ''p1'' then Some (variablesWith [ann])
      else if i = ''p0'' then Some (variablesWith [])
      else if i = ''a1'' then Some (variablesWith [ann, thirty, mail])
      else if i = ''a2'' then Some (variablesWith [thirty, mail])
      else if i = ''nokey'' then Some [(''other'', Some (JNumber 1))]
      else if i = ''null'' then Some [(WORKFLOW_DATA_KEY, Some JNull)]
      else None)"

section \<open>Results: the input-schema route\<close>

subsection \<open>Helper facts\<close>

lemmas scenario_defs =
  scenarioServices_def twoFragments_def personal_def contact_def withInputSchema_def
  withoutInputSchema_def variablesWith_def scenarioInstances_def WORKFLOW_DATA_KEY_def

lemmas state_defs =
  primaryInitialState_def assessmentInstanceInitialState_def merge_def definedKeys_def
  Object_keys_def property_def extractInitialState_def personal_def contact_def
  ann_def thirty_def mail_def

lemma property_Some_key: "property item key = Some v \<Longrightarrow> key \<in> set (Object_keys item)"
proof -
  assume "property item key = Some v"
  then have "map_of item key = Some (Some v)"
    by (simp add: property_def split: option.splits)
  then have "(key, Some v) \<in> set item" by (rule map_of_SomeD)
  then have "fst (key, Some v) \<in> fst ` set item" by (rule imageI)
  then show ?thesis by (simp add: Object_keys_def)
qed

lemma definedKeys_set:
  "set (definedKeys assessment) = {key. \<exists>item\<in>set assessment. \<exists>v. property item key = Some v}"
proof (rule set_eqI)
  fix key
  have "key \<in> set (definedKeys assessment) \<longleftrightarrow>
        (\<exists>item\<in>set assessment. key \<in> set (Object_keys item) \<and> property item key \<noteq> None)"
    by (auto simp: definedKeys_def)
  also have "\<dots> \<longleftrightarrow> (\<exists>item\<in>set assessment. \<exists>v. property item key = Some v)"
    using property_Some_key by fastforce
  finally show "key \<in> set (definedKeys assessment) \<longleftrightarrow>
      key \<in> {key. \<exists>item\<in>set assessment. \<exists>v. property item key = Some v}"
    by simp
qed

lemma extractInitialState_length:
  "length (extractInitialState workflowData fragments) = length fragments"
  by (simp add: extractInitialState_def)

lemma resolveSchemas_early_response:
  "resolveSchemas services workflowId = (Inl (Sent 200 body), calls) \<Longrightarrow> ParseComposition \<notin> set calls"
  by (auto simp: resolveSchemas_def Let_def split: sum.splits option.splits if_splits)

lemma resolveSchemas_no_extraction:
  "resolveSchemas services workflowId = (result, calls) \<Longrightarrow>
   ExtractInitialStateFromWorkflowData workflowData \<notin> set calls"
  by (auto simp: resolveSchemas_def Let_def split: sum.splits option.splits if_splits)

lemma instanceWorkflowData_no_extraction:
  "instanceWorkflowData services instanceId = (result, calls) \<Longrightarrow>
   ExtractInitialStateFromWorkflowData workflowData \<notin> set calls"
  by (auto simp: instanceWorkflowData_def split: sum.splits option.splits if_splits)

lemma primaryInitialState_cases:
  "primaryInitialState services parsed d =
     (if truthy d
      then (extractInitialStateFromWorkflowData services (the d) parsed,
            [ExtractInitialStateFromWorkflowData (the d)])
      else ([], []))"
  by (simp add: primaryInitialState_def split: option.splits)

lemma assessmentInstanceInitialState_cases:
  "assessmentInstanceInitialState services parsed d =
     (if truthy d
      then (Some (extractInitialStateFromWorkflowData services (the d) parsed),
            [ExtractInitialStateFromWorkflowData (the d)])
      else (None, []))"
  by (simp add: assessmentInstanceInitialState_def split: option.splits)

text \<open>
  The handler after a successful parse, when neither lookup of instance variables
  rejects: the response is the merge of the two initial states.
\<close>

lemma inputSchemaRoute_merged:
  assumes "resolveSchemas services workflowId = (Inr (response, parsed), c1)"
    and "instanceWorkflowData services instanceId = (Inr primaryData, c2)"
    and "instanceWorkflowData services assessmentInstanceId = (Inr assessmentData, c4)"
  shows "inputSchemaRoute services workflowId instanceId assessmentInstanceId =
     (Sent 200
        (Json (response\<lparr>schemas := parsed,
                 initialState :=
                   merge (fst (primaryInitialState services parsed primaryData))
                         (fst (assessmentInstanceInitialState services parsed assessmentData))\<rparr>)),
      c1 @ c2 @ snd (primaryInitialState services parsed primaryData) @ c4 @
      snd (assessmentInstanceInitialState services parsed assessmentData))"
  using assms by (simp add: inputSchemaRoute_def split: prod.splits)

text \<open>
  A JSON response whose trace holds the call of \<open>parseComposition\<close> comes from a
  successful parse followed by two lookups that did not reject.
\<close>

lemma inputSchemaRoute_parsed_response:
  assumes run: "inputSchemaRoute services workflowId instanceId assessmentInstanceId =
                  (Sent 200 (Json r), calls)"
    and parsed: "ParseComposition \<in> set calls"
  shows "\<exists>response parsed c1 primaryData c2 assessmentData c4.
           resolveSchemas services workflowId = (Inr (response, parsed), c1) \<and>
           instanceWorkflowData services instanceId = (Inr primaryData, c2) \<and>
           instanceWorkflowData services assessmentInstanceId = (Inr assessmentData, c4)"
proof -
  obtain res c1 where rs: "resolveSchemas services workflowId = (res, c1)"
    by (cases "resolveSchemas services workflowId")
  obtain p c2 where pw: "instanceWorkflowData services instanceId = (p, c2)"
    by (cases "instanceWorkflowData services instanceId")
  obtain a c4 where aw: "instanceWorkflowData services assessmentInstanceId = (a, c4)"
    by (cases "instanceWorkflowData services assessmentInstanceId")
  show ?thesis
  proof (cases res)
    case (Inl outcome)
    with rs run have "outcome = Sent 200 (Json r)" "c1 = calls"
      by (simp_all add: inputSchemaRoute_def)
    with rs Inl parsed show ?thesis
      using resolveSchemas_early_response by blast
  next
    case (Inr pair)
    obtain response ps where pair: "pair = (response, ps)" by (cases pair)
    show ?thesis
    proof (cases p)
      case (Inl e)
      with rs Inr pair pw run show ?thesis by (simp add: inputSchemaRoute_def)
    next
      case pd: (Inr primaryData)
      show ?thesis
      proof (cases a)
        case (Inl e)
        with rs Inr pair pw pd aw run show ?thesis
          by (simp add: inputSchemaRoute_def split: prod.splits)
      next
        case ad: (Inr assessmentData)
        with rs Inr pair pw pd aw show ?thesis by blast
      qed
    qed
  qed
qed

text \<open>The scenarios: the parse, and the workflow data of the instances.\<close>

lemma scenario_resolveSchemas:
  "resolveSchemas (scenarioServices (Some ''http://svc'') (Some withInputSchema) (Some ''wf.sw.yaml'')
        (Some twoFragments) scenarioInstances) ''wf'' =
     (Inr (\<lparr>workflowItem = \<lparr>item_uri = ''wf.sw.yaml'', item_definition = withInputSchema\<rparr>,
            schemas = [], initialState = \<lparr>state_values = [], readonlyKeys = []\<rparr>\<rparr>,
           [personal, contact]),
      [GetWorkflowDefinition ''wf'', FetchWorkflowDefinition ''wf'', FetchWorkflowUri ''wf'',
       FetchWorkflowInfo ''wf'' ''http://svc'', ParseComposition])"
  by (simp add: resolveSchemas_def scenario_defs)

lemma scenario_unknown_instance:
  "instanceWorkflowData (scenarioServices (Some ''http://svc'') (Some withInputSchema) (Some ''wf.sw.yaml'')
        (Some twoFragments) scenarioInstances) (Some ''gone'') =
     (Inr None, [FetchProcessInstanceVariables ''gone''])"
  by (simp add: instanceWorkflowData_def scenario_defs)

lemma scenario_p1:
  "instanceWorkflowData (scenarioServices (Some ''http://svc'') (Some withInputSchema) (Some ''wf.sw.yaml'')
        (Some twoFragments) scenarioInstances) (Some ''p1'') =
     (Inr (Some (JObject [ann])), [FetchProcessInstanceVariables ''p1''])"
  by (simp add: instanceWorkflowData_def scenario_defs property_def)

lemma scenario_p0:
  "instanceWorkflowData (scenarioServices (Some ''http://svc'') (Some withInputSchema) (Some ''wf.sw.yaml'')
        (Some twoFragments) scenarioInstances) (Some ''p0'') =
     (Inr (Some (JObject [])), [FetchProcessInstanceVariables ''p0''])"
  by (simp add: instanceWorkflowData_def scenario_defs property_def)

lemma scenario_a1:
  "instanceWorkflowData (scenarioServices (Some ''http://svc'') (Some withInputSchema) (Some ''wf.sw.yaml'')
        (Some twoFragments) scenarioInstances) (Some ''a1'') =
     (Inr (Some (JObject [ann, thirty, mail])), [FetchProcessInstanceVariables ''a1''])"
  by (simp add: instanceWorkflowData_def scenario_defs property_def)

lemma scenario_a2:
  "instanceWorkflowData (scenarioServices (Some ''http://svc'') (Some withInputSchema) (Some ''wf.sw.yaml'')
        (Some twoFragments) scenarioInstances) (Some ''a2'') =
     (Inr (Some (JObject [thirty, mail])), [FetchProcessInstanceVariables ''a2''])"
  by (simp add: instanceWorkflowData_def scenario_defs property_def)

lemma scenario_no_instance:
  "instanceWorkflowData (scenarioServices (Some ''http://svc'') (Some withInputSchema) (Some ''wf.sw.yaml'')
        (Some twoFragments) scenarioInstances) None = (Inr None, [])"
  by (simp add: instanceWorkflowData_def)

lemma scenario_extract [simp]:
  "extractInitialStateFromWorkflowData (scenarioServices (Some ''http://svc'') (Some withInputSchema) (Some ''wf.sw.yaml'')
        (Some twoFragments) scenarioInstances) = extractInitialState"
  by (simp add: scenarioServices_def)

subsection \<open>The merge of the primary and the assessment state\<close>

text \<open>
  C1, as the specification states it, fails. Scenario: the schema has the fragments
  \<open>personal\<close> and \<open>contact\<close>, the primary instance holds \<open>{name: "Ann"}\<close> and the
  assessment instance \<open>{name: "Ann", age: 30, email: "a@x.com"}\<close>. The primary state
  \<open>[{name: "Ann"}, {}]\<close> has a non-empty fragment and is returned as the values, but
  \<open>readonlyKeys\<close> is \<open>[name, age, email]\<close>, not empty: the handler computes it from the
  assessment state whenever there is one.
\<close>

theorem merge_readonlyKeys_counterexample:
  "property [ann] ''name'' = Some (JString ''Ann'')
   \<and> merge [[ann], []] (Some [[ann, thirty], [mail]]) =
       \<lparr>state_values = [[ann], []], readonlyKeys = [''name'', ''age'', ''email'']\<rparr>
   \<and> inputSchemaRoute (scenarioServices (Some ''http://svc'') (Some withInputSchema) (Some ''wf.sw.yaml'')
        (Some twoFragments) scenarioInstances) ''wf'' (Some ''p1'') (Some ''a1'') =
       (Sent 200
          (Json \<lparr>workflowItem = \<lparr>item_uri = ''wf.sw.yaml'', item_definition = withInputSchema\<rparr>,
                 schemas = [personal, contact],
                 initialState =
                   \<lparr>state_values = [[ann], []], readonlyKeys = [''name'', ''age'', ''email'']\<rparr>\<rparr>),
        [GetWorkflowDefinition ''wf'', FetchWorkflowDefinition ''wf'', FetchWorkflowUri ''wf'',
       FetchWorkflowInfo ''wf'' ''http://svc'', ParseComposition,
         FetchProcessInstanceVariables ''p1'',
         ExtractInitialStateFromWorkflowData (JObject [ann]),
         FetchProcessInstanceVariables ''a1'',
         ExtractInitialStateFromWorkflowData (JObject [ann, thirty, mail])])"
proof (intro conjI)
  show "property [ann] ''name'' = Some (JString ''Ann'')"
    by (simp add: property_def ann_def)
  show "merge [[ann], []] (Some [[ann, thirty], [mail]]) =
       \<lparr>state_values = [[ann], []], readonlyKeys = [''name'', ''age'', ''email'']\<rparr>"
    by (simp add: state_defs)
  show "inputSchemaRoute (scenarioServices (Some ''http://svc'') (Some withInputSchema) (Some ''wf.sw.yaml'')
        (Some twoFragments) scenarioInstances) ''wf'' (Some ''p1'') (Some ''a1'') =
       (Sent 200
          (Json \<lparr>workflowItem = \<lparr>item_uri = ''wf.sw.yaml'', item_definition = withInputSchema\<rparr>,
                 schemas = [personal, contact],
                 initialState =
                   \<lparr>state_values = [[ann], []], readonlyKeys = [''name'', ''age'', ''email'']\<rparr>\<rparr>),
        [GetWorkflowDefinition ''wf'', FetchWorkflowDefinition ''wf'', FetchWorkflowUri ''wf'',
       FetchWorkflowInfo ''wf'' ''http://svc'', ParseComposition,
         FetchProcessInstanceVariables ''p1'',
         ExtractInitialStateFromWorkflowData (JObject [ann]),
         FetchProcessInstanceVariables ''a1'',
         ExtractInitialStateFromWorkflowData (JObject [ann, thirty, mail])])"
    unfolding inputSchemaRoute_merged [OF scenario_resolveSchemas scenario_p1 scenario_a1]
    by (simp add: state_defs)
qed

text \<open>
  C1, amended. In the merge step, for every primary initial state that has at least one
  non-empty fragment and every assessment initial state, present or not, the returned
  values equal the primary initial state, and the returned \<open>readonlyKeys\<close> are the field
  names with a defined value across the fragments of the assessment state, when there is
  one, and empty when there is none. So \<open>readonlyKeys\<close> is non-empty only when workflow
  data of the assessment instance was found, whether or not the values fell back to it.
\<close>

theorem merge_keeps_nonempty_primary:
  assumes "\<exists>item\<in>set primary. \<exists>key v. property item key = Some v"
  shows "state_values (merge primary assessment) = primary
       \<and> readonlyKeys (merge primary assessment) =
           (case assessment of None \<Rightarrow> [] | Some assessmentState \<Rightarrow> definedKeys assessmentState)
       \<and> (readonlyKeys (merge primary assessment) \<noteq> [] \<longrightarrow> assessment \<noteq> None)"
  using assms by (auto simp: merge_def split: option.splits)

text \<open>The instance of amended C1 at the scenario above.\<close>

theorem merge_keeps_nonempty_primary_witness:
  "(\<exists>item\<in>set [[ann], []]. \<exists>key v. property item key = Some v)
   \<and> state_values (merge [[ann], []] (Some [[ann, thirty], [mail]])) = [[ann], []]
   \<and> readonlyKeys (merge [[ann], []] (Some [[ann, thirty], [mail]])) = [''name'', ''age'', ''email'']"
proof -
  have "property [ann] ''name'' = Some (JString ''Ann'')"
    by (simp add: property_def ann_def)
  then have h: "\<exists>item\<in>set [[ann], []]. \<exists>key v. property item key = Some v"
    by (intro bexI [of _ "[ann]"] exI) simp_all
  have d: "definedKeys [[ann, thirty], [mail]] = [''name'', ''age'', ''email'']"
    by (simp add: state_defs)
  from merge_keeps_nonempty_primary [OF h, of "Some [[ann, thirty], [mail]]"] h d
  show ?thesis by simp
qed

text \<open>
  C3, as the specification states it, fails. Scenario: the same schema; the primary
  instance has workflow data, but none of the fields; the assessment instance holds
  \<open>{age: 30, email: "a@x.com"}\<close>. Every fragment of the primary state \<open>[{}, {}]\<close> is
  empty, yet the returned values are that state and not the assessment state: the
  handler falls back only when the primary state is the empty list.
\<close>

theorem merge_fallback_counterexample:
  "Object_keys ([] :: JsonObject) = []
   \<and> property [thirty] ''age'' = Some (JNumber 30)
   \<and> merge [[], []] (Some [[thirty], [mail]]) =
       \<lparr>state_values = [[], []], readonlyKeys = [''age'', ''email'']\<rparr>
   \<and> [[], []] \<noteq> [[thirty], [mail]]
   \<and> inputSchemaRoute (scenarioServices (Some ''http://svc'') (Some withInputSchema) (Some ''wf.sw.yaml'')
        (Some twoFragments) scenarioInstances) ''wf'' (Some ''p0'') (Some ''a2'') =
       (Sent 200
          (Json \<lparr>workflowItem = \<lparr>item_uri = ''wf.sw.yaml'', item_definition = withInputSchema\<rparr>,
                 schemas = [personal, contact],
                 initialState = \<lparr>state_values = [[], []], readonlyKeys = [''age'', ''email'']\<rparr>\<rparr>),
        [GetWorkflowDefinition ''wf'', FetchWorkflowDefinition ''wf'', FetchWorkflowUri ''wf'',
       FetchWorkflowInfo ''wf'' ''http://svc'', ParseComposition,
         FetchProcessInstanceVariables ''p0'',
         ExtractInitialStateFromWorkflowData (JObject []),
         FetchProcessInstanceVariables ''a2'',
         ExtractInitialStateFromWorkflowData (JObject [thirty, mail])])"
proof (intro conjI)
  show "Object_keys ([] :: JsonObject) = []"
    by (simp add: Object_keys_def)
  show "property [thirty] ''age'' = Some (JNumber 30)"
    by (simp add: property_def thirty_def)
  show "merge [[], []] (Some [[thirty], [mail]]) =
       \<lparr>state_values = [[], []], readonlyKeys = [''age'', ''email'']\<rparr>"
    by (simp add: state_defs)
  show "[[], []] \<noteq> [[thirty], [mail]]"
    by simp
  show "inputSchemaRoute (scenarioServices (Some ''http://svc'') (Some withInputSchema) (Some ''wf.sw.yaml'')
        (Some twoFragments) scenarioInstances) ''wf'' (Some ''p0'') (Some ''a2'') =
       (Sent 200
          (Json \<lparr>workflowItem = \<lparr>item_uri = ''wf.sw.yaml'', item_definition = withInputSchema\<rparr>,
                 schemas = [personal, contact],
                 initialState = \<lparr>state_values = [[], []], readonlyKeys = [''age'', ''email'']\<rparr>\<rparr>),
        [GetWorkflowDefinition ''wf'', FetchWorkflowDefinition ''wf'', FetchWorkflowUri ''wf'',
       FetchWorkflowInfo ''wf'' ''http://svc'', ParseComposition,
         FetchProcessInstanceVariables ''p0'',
         ExtractInitialStateFromWorkflowData (JObject []),
         FetchProcessInstanceVariables ''a2'',
         ExtractInitialStateFromWorkflowData (JObject [thirty, mail])])"
    unfolding inputSchemaRoute_merged [OF scenario_resolveSchemas scenario_p0 scenario_a2]
    by (simp add: state_defs)
qed

text \<open>
  C3, amended. In the merge step, for every present assessment initial state, the
  returned values equal the assessment state when the primary initial state is the
  empty list (no workflow data of the primary instance was extracted), and the primary
  state otherwise, even when every fragment of it is empty. In both cases the returned
  \<open>readonlyKeys\<close> hold exactly the field names that have a defined value somewhere
  across the fragments of the assessment state.
\<close>

theorem merge_assessment_fallback:
  "state_values (merge primary (Some assessment)) = (if primary = [] then assessment else primary)
   \<and> readonlyKeys (merge primary (Some assessment)) = definedKeys assessment
   \<and> set (readonlyKeys (merge primary (Some assessment))) =
       {key. \<exists>item\<in>set assessment. \<exists>v. property item key = Some v}"
  by (simp add: merge_def definedKeys_set)

subsection \<open>The length of the returned values\<close>

text \<open>
  C2, as the specification states it, fails. Scenario: the same schema, and a request
  that names no instance. The parse gives two fragments, the response carries both
  schemas, and the returned values are the empty list, not two empty objects: the
  handler starts from \<open>initialState = []\<close> and extracts only when it found workflow data.
\<close>

theorem inputSchemaRoute_values_length_counterexample:
  "inputSchemaRoute (scenarioServices (Some ''http://svc'') (Some withInputSchema) (Some ''wf.sw.yaml'')
        (Some twoFragments) scenarioInstances) ''wf'' None None =
       (Sent 200
          (Json \<lparr>workflowItem = \<lparr>item_uri = ''wf.sw.yaml'', item_definition = withInputSchema\<rparr>,
                 schemas = [personal, contact],
                 initialState = \<lparr>state_values = [], readonlyKeys = []\<rparr>\<rparr>),
        [GetWorkflowDefinition ''wf'', FetchWorkflowDefinition ''wf'', FetchWorkflowUri ''wf'',
       FetchWorkflowInfo ''wf'' ''http://svc'', ParseComposition])
   \<and> length ([] :: JsonObject list) \<noteq> length [personal, contact]"
proof
  show "inputSchemaRoute (scenarioServices (Some ''http://svc'') (Some withInputSchema) (Some ''wf.sw.yaml'')
        (Some twoFragments) scenarioInstances) ''wf'' None None =
       (Sent 200
          (Json \<lparr>workflowItem = \<lparr>item_uri = ''wf.sw.yaml'', item_definition = withInputSchema\<rparr>,
                 schemas = [personal, contact],
                 initialState = \<lparr>state_values = [], readonlyKeys = []\<rparr>\<rparr>),
        [GetWorkflowDefinition ''wf'', FetchWorkflowDefinition ''wf'', FetchWorkflowUri ''wf'',
       FetchWorkflowInfo ''wf'' ''http://svc'', ParseComposition])"
    unfolding inputSchemaRoute_merged [OF scenario_resolveSchemas scenario_no_instance scenario_no_instance]
    by (simp add: state_defs)
  show "length ([] :: JsonObject list) \<noteq> length [personal, contact]"
    by simp
qed

text \<open>
  C2, amended. For every resolution that reaches the parse step and answers with the
  JSON response, given that \<open>extractInitialStateFromWorkflowData\<close> returns one entry per
  schema: the returned values have exactly as many entries as the returned schemas
  whenever workflow data was found for the primary or for the assessment instance (an
  extraction took place); when it was found for neither, the returned values are the
  empty list, however many schemas there are.
\<close>

theorem inputSchemaRoute_values_length:
  assumes run: "inputSchemaRoute services workflowId instanceId assessmentInstanceId =
                  (Sent 200 (Json r), calls)"
    and parsed: "ParseComposition \<in> set calls"
    and len: "\<forall>workflowData fragments.
                length (extractInitialStateFromWorkflowData services workflowData fragments) =
                length fragments"
  shows "length (state_values (initialState r)) =
           (if \<exists>workflowData. ExtractInitialStateFromWorkflowData workflowData \<in> set calls
            then length (schemas r) else 0)"
proof -
  from inputSchemaRoute_parsed_response [OF run parsed]
  obtain response ps c1 primaryData c2 assessmentData c4 where
    rs: "resolveSchemas services workflowId = (Inr (response, ps), c1)" and
    pw: "instanceWorkflowData services instanceId = (Inr primaryData, c2)" and
    aw: "instanceWorkflowData services assessmentInstanceId = (Inr assessmentData, c4)"
    by blast
  note merged = inputSchemaRoute_merged [OF rs pw aw]
  have n1: "\<And>d. ExtractInitialStateFromWorkflowData d \<notin> set c1"
    using resolveSchemas_no_extraction [OF rs] by simp
  have n2: "\<And>d. ExtractInitialStateFromWorkflowData d \<notin> set c2"
    using instanceWorkflowData_no_extraction [OF pw] by simp
  have n4: "\<And>d. ExtractInitialStateFromWorkflowData d \<notin> set c4"
    using instanceWorkflowData_no_extraction [OF aw] by simp
  from run merged have r: "r = response\<lparr>schemas := ps,
                 initialState :=
                   merge (fst (primaryInitialState services ps primaryData))
                         (fst (assessmentInstanceInitialState services ps assessmentData))\<rparr>"
    and calls: "calls = c1 @ c2 @ snd (primaryInitialState services ps primaryData) @ c4 @
      snd (assessmentInstanceInitialState services ps assessmentData)"
    by simp_all
  from len have len': "\<And>d. length (extractInitialStateFromWorkflowData services d ps) = length ps"
    by simp
  then have empty: "\<And>d. extractInitialStateFromWorkflowData services d ps = [] \<longleftrightarrow> ps = []"
    by (metis length_0_conv)
  show ?thesis
    unfolding r calls primaryInitialState_cases assessmentInstanceInitialState_cases
    using n1 n2 n4 by (auto simp: merge_def len' empty)
qed

text \<open>
  The instance of amended C2 at the scenario of C3: workflow data was found for both
  instances, and the two returned values stand against the two schemas.
\<close>

theorem inputSchemaRoute_values_length_witness:
  "inputSchemaRoute (scenarioServices (Some ''http://svc'') (Some withInputSchema) (Some ''wf.sw.yaml'')
        (Some twoFragments) scenarioInstances) ''wf'' (Some ''p0'') (Some ''a2'') =
       (Sent 200
          (Json \<lparr>workflowItem = \<lparr>item_uri = ''wf.sw.yaml'', item_definition = withInputSchema\<rparr>,
                 schemas = [personal, contact],
                 initialState = \<lparr>state_values = [[], []], readonlyKeys = [''age'', ''email'']\<rparr>\<rparr>),
        [GetWorkflowDefinition ''wf'', FetchWorkflowDefinition ''wf'', FetchWorkflowUri ''wf'',
       FetchWorkflowInfo ''wf'' ''http://svc'', ParseComposition,
         FetchProcessInstanceVariables ''p0'',
         ExtractInitialStateFromWorkflowData (JObject []),
         FetchProcessInstanceVariables ''a2'',
         ExtractInitialStateFromWorkflowData (JObject [thirty, mail])])
   \<and> (\<forall>workflowData fragments.
         length (extractInitialStateFromWorkflowData (scenarioServices (Some ''http://svc'') (Some withInputSchema) (Some ''wf.sw.yaml'')
        (Some twoFragments) scenarioInstances) workflowData fragments) = length fragments)
   \<and> length [[], [] :: JsonObject] = length [personal, contact]"
proof -
  have run: "inputSchemaRoute (scenarioServices (Some ''http://svc'') (Some withInputSchema) (Some ''wf.sw.yaml'')
        (Some twoFragments) scenarioInstances) ''wf'' (Some ''p0'') (Some ''a2'') =
       (Sent 200
          (Json \<lparr>workflowItem = \<lparr>item_uri = ''wf.sw.yaml'', item_definition = withInputSchema\<rparr>,
                 schemas = [personal, contact],
                 initialState = \<lparr>state_values = [[], []], readonlyKeys = [''age'', ''email'']\<rparr>\<rparr>),
        [GetWorkflowDefinition ''wf'', FetchWorkflowDefinition ''wf'', FetchWorkflowUri ''wf'',
       FetchWorkflowInfo ''wf'' ''http://svc'', ParseComposition,
         FetchProcessInstanceVariables ''p0'',
         ExtractInitialStateFromWorkflowData (JObject []),
         FetchProcessInstanceVariables ''a2'',
         ExtractInitialStateFromWorkflowData (JObject [thirty, mail])])"
    unfolding inputSchemaRoute_merged [OF scenario_resolveSchemas scenario_p0 scenario_a2]
    by (simp add: state_defs)
  have parsed: "ParseComposition \<in> set ([GetWorkflowDefinition ''wf'', FetchWorkflowDefinition ''wf'', FetchWorkflowUri ''wf'',
       FetchWorkflowInfo ''wf'' ''http://svc'', ParseComposition,
         FetchProcessInstanceVariables ''p0'',
         ExtractInitialStateFromWorkflowData (JObject []),
         FetchProcessInstanceVariables ''a2'',
         ExtractInitialStateFromWorkflowData (JObject [thirty, mail])])"
    by simp
  have len: "\<forall>workflowData fragments.
         length (extractInitialStateFromWorkflowData (scenarioServices (Some ''http://svc'') (Some withInputSchema) (Some ''wf.sw.yaml'')
        (Some twoFragments) scenarioInstances) workflowData fragments) = length fragments"
    by (simp add: extractInitialState_length)
  from inputSchemaRoute_values_length [OF run parsed len] run len
  show ?thesis by simp
qed

subsection \<open>The lookups before the parse\<close>

text \<open>
  C4, as the specification states it, fails. Scenario: the workflow declares an input
  schema, and the runtime lookup answers with a workflow info that has no
  \<open>inputSchema\<close>. The handler sends status 500 with the text
  \<open>Couldn't fetch workflow input schema wf\<close>.
\<close>

theorem inputSchemaRoute_no_runtime_inputSchema_counterexample:
  "truthy_dataInputSchema (dataInputSchema withInputSchema)
   \<and> fetchWorkflowInfo (scenarioServices (Some ''http://svc'') (Some withInputSchema) (Some ''wf.sw.yaml'')
        None scenarioInstances) ''wf'' ''http://svc'' =
       Inr (Some \<lparr>serviceUrl = Some ''http://svc'', inputSchema = None\<rparr>)
   \<and> inputSchemaRoute (scenarioServices (Some ''http://svc'') (Some withInputSchema) (Some ''wf.sw.yaml'')
        None scenarioInstances) ''wf'' None None =
       (Sent 500 (Text (''Couldn'' @ [CHR 0x27] @ ''t fetch workflow input schema wf'')),
        [GetWorkflowDefinition ''wf'', FetchWorkflowDefinition ''wf'', FetchWorkflowUri ''wf'',
         FetchWorkflowInfo ''wf'' ''http://svc''])"
  by (simp add: inputSchemaRoute_def resolveSchemas_def scenario_defs couldnt_fetch_def quote_def)

text \<open>
  C4, amended. For every resolution in which the workflow declares an input schema but
  the runtime lookup returns a workflow info without \<open>inputSchema\<close>, the request fails:
  the handler answers status 500 with the text
  \<open>Couldn't fetch workflow input schema <workflowId>\<close> and calls no further service.
  The absence of the runtime \<open>inputSchema\<close> is an error.
\<close>

theorem inputSchemaRoute_no_runtime_inputSchema:
  assumes "getWorkflowDefinition services workflowId = Inr workflowDefinition"
    and "serviceUrl workflowDefinition = Some url" and "url \<noteq> []"
    and "fetchWorkflowDefinition services workflowId = Inr (Some definition')"
    and "fetchWorkflowUri services workflowId = Inr (Some uri)" and "uri \<noteq> []"
    and "truthy_dataInputSchema (dataInputSchema definition')"
    and "fetchWorkflowInfo services workflowId url = Inr (Some workflowInfo)"
    and "inputSchema workflowInfo = None"
  shows "inputSchemaRoute services workflowId instanceId assessmentInstanceId =
           (Sent 500 (Text (couldnt_fetch ''workflow input schema'' workflowId)),
            [GetWorkflowDefinition workflowId, FetchWorkflowDefinition workflowId,
             FetchWorkflowUri workflowId, FetchWorkflowInfo workflowId url])"
  using assms by (simp add: inputSchemaRoute_def resolveSchemas_def)

text \<open>The instance of amended C4 at the scenario above, for a request that names both instances.\<close>

theorem inputSchemaRoute_no_runtime_inputSchema_witness:
  "inputSchemaRoute (scenarioServices (Some ''http://svc'') (Some withInputSchema) (Some ''wf.sw.yaml'')
        None scenarioInstances) ''wf'' (Some ''p1'') (Some ''a1'') =
     (Sent 500 (Text (couldnt_fetch ''workflow input schema'' ''wf'')),
      [GetWorkflowDefinition ''wf'', FetchWorkflowDefinition ''wf'', FetchWorkflowUri ''wf'',
       FetchWorkflowInfo ''wf'' ''http://svc''])"
  by (rule inputSchemaRoute_no_runtime_inputSchema
        [where workflowDefinition = "\<lparr>serviceUrl = Some ''http://svc'', inputSchema = None\<rparr>"
           and definition' = withInputSchema and uri = "''wf.sw.yaml''"
           and workflowInfo = "\<lparr>serviceUrl = Some ''http://svc'', inputSchema = None\<rparr>"])
     (simp_all add: scenario_defs)

text \<open>
  C5. When the lookups of the definition succeed (a service url, a definition and a
  uri) and the definition declares no input schema, the handler answers status 200 at
  once: the response has no schemas and the initial state \<open>{values: [], readonlyKeys: []}\<close>,
  and the only calls made are the three lookups; nothing is fetched at run time, parsed
  or extracted. (An empty string for \<open>dataInputSchema\<close> counts as none.)
\<close>

theorem inputSchemaRoute_no_declared_schema:
  assumes "getWorkflowDefinition services workflowId = Inr workflowDefinition"
    and "serviceUrl workflowDefinition = Some url" and "url \<noteq> []"
    and "fetchWorkflowDefinition services workflowId = Inr (Some definition')"
    and "fetchWorkflowUri services workflowId = Inr (Some uri)" and "uri \<noteq> []"
    and "\<not> truthy_dataInputSchema (dataInputSchema definition')"
  shows "inputSchemaRoute services workflowId instanceId assessmentInstanceId =
           (Sent 200
              (Json \<lparr>workflowItem = \<lparr>item_uri = uri, item_definition = definition'\<rparr>,
                     schemas = [],
                     initialState = \<lparr>state_values = [], readonlyKeys = []\<rparr>\<rparr>),
            [GetWorkflowDefinition workflowId, FetchWorkflowDefinition workflowId,
             FetchWorkflowUri workflowId])"
  using assms by (simp add: inputSchemaRoute_def resolveSchemas_def)

text \<open>
  The instance of C5 at a workflow whose definition has no \<open>dataInputSchema\<close>, for a
  request that names both instances.
\<close>

theorem inputSchemaRoute_no_declared_schema_witness:
  "dataInputSchema withoutInputSchema = None
   \<and> inputSchemaRoute (scenarioServices (Some ''http://svc'') (Some withoutInputSchema) (Some ''wf.sw.yaml'')
        (Some twoFragments) scenarioInstances) ''wf'' (Some ''p1'') (Some ''a1'') =
     (Sent 200
        (Json \<lparr>workflowItem = \<lparr>item_uri = ''wf.sw.yaml'', item_definition = withoutInputSchema\<rparr>,
               schemas = [],
               initialState = \<lparr>state_values = [], readonlyKeys = []\<rparr>\<rparr>),
      [GetWorkflowDefinition ''wf'', FetchWorkflowDefinition ''wf'', FetchWorkflowUri ''wf''])"
proof
  show "dataInputSchema withoutInputSchema = None"
    by (simp add: withoutInputSchema_def)
  show "inputSchemaRoute (scenarioServices (Some ''http://svc'') (Some withoutInputSchema) (Some ''wf.sw.yaml'')
        (Some twoFragments) scenarioInstances) ''wf'' (Some ''p1'') (Some ''a1'') =
     (Sent 200
        (Json \<lparr>workflowItem = \<lparr>item_uri = ''wf.sw.yaml'', item_definition = withoutInputSchema\<rparr>,
               schemas = [],
               initialState = \<lparr>state_values = [], readonlyKeys = []\<rparr>\<rparr>),
      [GetWorkflowDefinition ''wf'', FetchWorkflowDefinition ''wf'', FetchWorkflowUri ''wf''])"
    by (rule inputSchemaRoute_no_declared_schema
          [where workflowDefinition = "\<lparr>serviceUrl = Some ''http://svc'', inputSchema = None\<rparr>"
             and url = "''http://svc''"])
       (simp_all add: scenario_defs)
qed

text \<open>
  C7. When the data index gives a workflow without a service url, the handler throws
  \<open>ServiceUrl is not defined for workflow <workflowId>\<close> and has made no call but that
  first lookup. When the engine gives no definition, or no uri, the handler answers
  status 500 with \<open>Couldn't fetch workflow definition <workflowId>\<close>, or
  \<open>Couldn't fetch workflow uri <workflowId>\<close>. In all three cases the request fails.
\<close>

theorem inputSchemaRoute_lookup_failures:
  "(getWorkflowDefinition services workflowId = Inr workflowDefinition \<and>
    \<not> truthy_string (serviceUrl workflowDefinition) \<longrightarrow>
      inputSchemaRoute services workflowId instanceId assessmentInstanceId =
        (Threw (''ServiceUrl is not defined for workflow '' @ workflowId),
         [GetWorkflowDefinition workflowId]))
   \<and>
   (getWorkflowDefinition services workflowId = Inr workflowDefinition \<and>
    truthy_string (serviceUrl workflowDefinition) \<and>
    fetchWorkflowDefinition services workflowId = Inr None \<longrightarrow>
      inputSchemaRoute services workflowId instanceId assessmentInstanceId =
        (Sent 500 (Text (couldnt_fetch ''workflow definition'' workflowId)),
         [GetWorkflowDefinition workflowId, FetchWorkflowDefinition workflowId]))
   \<and>
   (getWorkflowDefinition services workflowId = Inr workflowDefinition \<and>
    truthy_string (serviceUrl workflowDefinition) \<and>
    fetchWorkflowDefinition services workflowId = Inr (Some definition) \<and>
    fetchWorkflowUri services workflowId = Inr uri \<and> \<not> truthy_string uri \<longrightarrow>
      inputSchemaRoute services workflowId instanceId assessmentInstanceId =
        (Sent 500 (Text (couldnt_fetch ''workflow uri'' workflowId)),
         [GetWorkflowDefinition workflowId, FetchWorkflowDefinition workflowId,
          FetchWorkflowUri workflowId]))"
proof (intro conjI impI)
  assume "getWorkflowDefinition services workflowId = Inr workflowDefinition \<and>
    \<not> truthy_string (serviceUrl workflowDefinition)"
  then show "inputSchemaRoute services workflowId instanceId assessmentInstanceId =
        (Threw (''ServiceUrl is not defined for workflow '' @ workflowId),
         [GetWorkflowDefinition workflowId])"
    by (cases "serviceUrl workflowDefinition")
       (simp_all add: inputSchemaRoute_def resolveSchemas_def)
next
  assume "getWorkflowDefinition services workflowId = Inr workflowDefinition \<and>
    truthy_string (serviceUrl workflowDefinition) \<and>
    fetchWorkflowDefinition services workflowId = Inr None"
  then show "inputSchemaRoute services workflowId instanceId assessmentInstanceId =
        (Sent 500 (Text (couldnt_fetch ''workflow definition'' workflowId)),
         [GetWorkflowDefinition workflowId, FetchWorkflowDefinition workflowId])"
    by (cases "serviceUrl workflowDefinition")
       (simp_all add: inputSchemaRoute_def resolveSchemas_def)
next
  assume "getWorkflowDefinition services workflowId = Inr workflowDefinition \<and>
    truthy_string (serviceUrl workflowDefinition) \<and>
    fetchWorkflowDefinition services workflowId = Inr (Some definition) \<and>
    fetchWorkflowUri services workflowId = Inr uri \<and> \<not> truthy_string uri"
  then show "inputSchemaRoute services workflowId instanceId assessmentInstanceId =
        (Sent 500 (Text (couldnt_fetch ''workflow uri'' workflowId)),
         [GetWorkflowDefinition workflowId, FetchWorkflowDefinition workflowId,
          FetchWorkflowUri workflowId])"
    by (cases "serviceUrl workflowDefinition"; cases uri)
       (simp_all add: inputSchemaRoute_def resolveSchemas_def)
qed

text \<open>
  Three instances of C7: services without a service url, without a definition, and
  without a uri.
\<close>

theorem inputSchemaRoute_lookup_failures_witness:
  "inputSchemaRoute
     (scenarioServices None (Some withInputSchema) (Some ''wf.sw.yaml'') (Some twoFragments)
        scenarioInstances) ''wf'' (Some ''p1'') (Some ''a1'') =
     (Threw ''ServiceUrl is not defined for workflow wf'', [GetWorkflowDefinition ''wf''])
   \<and> inputSchemaRoute
     (scenarioServices (Some ''http://svc'') None (Some ''wf.sw.yaml'') (Some twoFragments)
        scenarioInstances) ''wf'' (Some ''p1'') (Some ''a1'') =
     (Sent 500 (Text (couldnt_fetch ''workflow definition'' ''wf'')),
      [GetWorkflowDefinition ''wf'', FetchWorkflowDefinition ''wf''])
   \<and> inputSchemaRoute
     (scenarioServices (Some ''http://svc'') (Some withInputSchema) None (Some twoFragments)
        scenarioInstances) ''wf'' (Some ''p1'') (Some ''a1'') =
     (Sent 500 (Text (couldnt_fetch ''workflow uri'' ''wf'')),
      [GetWorkflowDefinition ''wf'', FetchWorkflowDefinition ''wf'', FetchWorkflowUri ''wf''])"
proof (intro conjI)
  show "inputSchemaRoute
     (scenarioServices None (Some withInputSchema) (Some ''wf.sw.yaml'') (Some twoFragments)
        scenarioInstances) ''wf'' (Some ''p1'') (Some ''a1'') =
     (Threw ''ServiceUrl is not defined for workflow wf'', [GetWorkflowDefinition ''wf''])"
    using inputSchemaRoute_lookup_failures
      [of "scenarioServices None (Some withInputSchema) (Some ''wf.sw.yaml'') (Some twoFragments)
             scenarioInstances"
          "''wf''" "\<lparr>serviceUrl = None, inputSchema = None\<rparr>" "Some ''p1''" "Some ''a1''"]
    by (simp add: scenarioServices_def)
  show "inputSchemaRoute
     (scenarioServices (Some ''http://svc'') None (Some ''wf.sw.yaml'') (Some twoFragments)
        scenarioInstances) ''wf'' (Some ''p1'') (Some ''a1'') =
     (Sent 500 (Text (couldnt_fetch ''workflow definition'' ''wf'')),
      [GetWorkflowDefinition ''wf'', FetchWorkflowDefinition ''wf''])"
    using inputSchemaRoute_lookup_failures
      [of "scenarioServices (Some ''http://svc'') None (Some ''wf.sw.yaml'') (Some twoFragments)
             scenarioInstances"
          "''wf''" "\<lparr>serviceUrl = Some ''http://svc'', inputSchema = None\<rparr>"
          "Some ''p1''" "Some ''a1''"]
    by (simp add: scenarioServices_def)
  show "inputSchemaRoute
     (scenarioServices (Some ''http://svc'') (Some withInputSchema) None (Some twoFragments)
        scenarioInstances) ''wf'' (Some ''p1'') (Some ''a1'') =
     (Sent 500 (Text (couldnt_fetch ''workflow uri'' ''wf'')),
      [GetWorkflowDefinition ''wf'', FetchWorkflowDefinition ''wf'', FetchWorkflowUri ''wf''])"
    using inputSchemaRoute_lookup_failures
      [of "scenarioServices (Some ''http://svc'') (Some withInputSchema) None (Some twoFragments)
             scenarioInstances"
          "''wf''" "\<lparr>serviceUrl = Some ''http://svc'', inputSchema = None\<rparr>"
          "Some ''p1''" "Some ''a1''" withInputSchema None]
    by (simp add: scenarioServices_def)
qed

subsection \<open>Absent instance data\<close>

text \<open>
  What \<open>instanceWorkflowData\<close> gives for the three answers of the lookup that do not
  reject.
\<close>

lemma instanceWorkflowData_returned:
  assumes "instanceId = Some i" and "i \<noteq> []"
    and "fetchProcessInstanceVariables services i = Inr v"
  shows "instanceWorkflowData services instanceId =
           (Inr (case v of None \<Rightarrow> None | Some variables \<Rightarrow> property variables WORKFLOW_DATA_KEY),
            [FetchProcessInstanceVariables i])"
  using assms by (simp add: instanceWorkflowData_def split: option.splits)

lemma instanceWorkflowData_no_id:
  assumes "instanceId = None \<or> instanceId = Some []"
  shows "instanceWorkflowData services instanceId = (Inr None, [])"
  using assms by (auto simp: instanceWorkflowData_def)

text \<open>
  C6. After a successful parse: a lookup of instance variables that returns absent
  (\<open>undefined\<close> variables, or variables with nothing truthy under the workflow-data key)
  does not fail the request. When the primary lookup returns absent and the assessment
  lookup returns anything, the handler answers status 200 with the merge of the empty
  primary state and the assessment state, and it has made both lookups. When the
  assessment lookup returns absent and the primary lookup returns anything, it answers
  status 200 with the primary state as values and no \<open>readonlyKeys\<close>. When the other
  instance id is not given, the absent lookup leaves the empty initial state, again
  with status 200. (A lookup whose promise rejects is another case: the handler throws.)
\<close>

theorem inputSchemaRoute_absent_instance_data:
  assumes rs: "resolveSchemas services workflowId = (Inr (response, parsed), c1)"
  shows
  "(instanceId = Some i \<and> i \<noteq> [] \<and> fetchProcessInstanceVariables services i = Inr pv \<and>
    (pv = None \<or> (\<exists>variables. pv = Some variables \<and> \<not> truthy (property variables WORKFLOW_DATA_KEY))) \<and>
    assessmentInstanceId = Some j \<and> j \<noteq> [] \<and> fetchProcessInstanceVariables services j = Inr av \<longrightarrow>
     inputSchemaRoute services workflowId instanceId assessmentInstanceId =
       (Sent 200
          (Json (response\<lparr>schemas := parsed,
                   initialState :=
                     merge []
                       (case (case av of None \<Rightarrow> None | Some variables \<Rightarrow> property variables WORKFLOW_DATA_KEY) of
                          None \<Rightarrow> None
                        | Some d \<Rightarrow>
                            if truthy (Some d)
                            then Some (extractInitialStateFromWorkflowData services d parsed)
                            else None)\<rparr>)),
        c1 @ [FetchProcessInstanceVariables i, FetchProcessInstanceVariables j] @
        (case (case av of None \<Rightarrow> None | Some variables \<Rightarrow> property variables WORKFLOW_DATA_KEY) of
           None \<Rightarrow> []
         | Some d \<Rightarrow> if truthy (Some d) then [ExtractInitialStateFromWorkflowData d] else [])))
   \<and>
   (instanceId = Some i \<and> i \<noteq> [] \<and> fetchProcessInstanceVariables services i = Inr pv \<and>
    (pv = None \<or> (\<exists>variables. pv = Some variables \<and> \<not> truthy (property variables WORKFLOW_DATA_KEY))) \<and>
    (assessmentInstanceId = None \<or> assessmentInstanceId = Some []) \<longrightarrow>
     inputSchemaRoute services workflowId instanceId assessmentInstanceId =
       (Sent 200
          (Json (response\<lparr>schemas := parsed,
                   initialState := \<lparr>state_values = [], readonlyKeys = []\<rparr>\<rparr>)),
        c1 @ [FetchProcessInstanceVariables i]))
   \<and>
   (assessmentInstanceId = Some j \<and> j \<noteq> [] \<and> fetchProcessInstanceVariables services j = Inr av \<and>
    (av = None \<or> (\<exists>variables. av = Some variables \<and> \<not> truthy (property variables WORKFLOW_DATA_KEY))) \<and>
    instanceId = Some i \<and> i \<noteq> [] \<and> fetchProcessInstanceVariables services i = Inr pv \<longrightarrow>
     inputSchemaRoute services workflowId instanceId assessmentInstanceId =
       (Sent 200
          (Json (response\<lparr>schemas := parsed,
                   initialState :=
                     \<lparr>state_values =
                        (case (case pv of None \<Rightarrow> None | Some variables \<Rightarrow> property variables WORKFLOW_DATA_KEY) of
                           None \<Rightarrow> []
                         | Some d \<Rightarrow>
                             if truthy (Some d)
                             then extractInitialStateFromWorkflowData services d parsed
                             else []),
                      readonlyKeys = []\<rparr>\<rparr>)),
        c1 @ [FetchProcessInstanceVariables i] @
        (case (case pv of None \<Rightarrow> None | Some variables \<Rightarrow> property variables WORKFLOW_DATA_KEY) of
           None \<Rightarrow> []
         | Some d \<Rightarrow> if truthy (Some d) then [ExtractInitialStateFromWorkflowData d] else []) @
        [FetchProcessInstanceVariables j]))
   \<and>
   (assessmentInstanceId = Some j \<and> j \<noteq> [] \<and> fetchProcessInstanceVariables services j = Inr av \<and>
    (av = None \<or> (\<exists>variables. av = Some variables \<and> \<not> truthy (property variables WORKFLOW_DATA_KEY))) \<and>
    (instanceId = None \<or> instanceId = Some []) \<longrightarrow>
     inputSchemaRoute services workflowId instanceId assessmentInstanceId =
       (Sent 200
          (Json (response\<lparr>schemas := parsed,
                   initialState := \<lparr>state_values = [], readonlyKeys = []\<rparr>\<rparr>)),
        c1 @ [FetchProcessInstanceVariables j]))"
proof (intro conjI impI)
  assume h: "instanceId = Some i \<and> i \<noteq> [] \<and> fetchProcessInstanceVariables services i = Inr pv \<and>
    (pv = None \<or> (\<exists>variables. pv = Some variables \<and> \<not> truthy (property variables WORKFLOW_DATA_KEY))) \<and>
    assessmentInstanceId = Some j \<and> j \<noteq> [] \<and> fetchProcessInstanceVariables services j = Inr av"
  then have pw: "instanceWorkflowData services instanceId =
      (Inr (case pv of None \<Rightarrow> None | Some variables \<Rightarrow> property variables WORKFLOW_DATA_KEY), [FetchProcessInstanceVariables i])"
    by (intro instanceWorkflowData_returned) simp_all
  from h have aw: "instanceWorkflowData services assessmentInstanceId =
      (Inr (case av of None \<Rightarrow> None | Some variables \<Rightarrow> property variables WORKFLOW_DATA_KEY), [FetchProcessInstanceVariables j])"
    by (intro instanceWorkflowData_returned) simp_all
  from h have absent: "\<not> truthy (case pv of None \<Rightarrow> None | Some variables \<Rightarrow> property variables WORKFLOW_DATA_KEY)"
    by auto
  show "inputSchemaRoute services workflowId instanceId assessmentInstanceId =
       (Sent 200
          (Json (response\<lparr>schemas := parsed,
                   initialState :=
                     merge []
                       (case (case av of None \<Rightarrow> None | Some variables \<Rightarrow> property variables WORKFLOW_DATA_KEY) of
                          None \<Rightarrow> None
                        | Some d \<Rightarrow>
                            if truthy (Some d)
                            then Some (extractInitialStateFromWorkflowData services d parsed)
                            else None)\<rparr>)),
        c1 @ [FetchProcessInstanceVariables i, FetchProcessInstanceVariables j] @
        (case (case av of None \<Rightarrow> None | Some variables \<Rightarrow> property variables WORKFLOW_DATA_KEY) of
           None \<Rightarrow> []
         | Some d \<Rightarrow> if truthy (Some d) then [ExtractInitialStateFromWorkflowData d] else []))"
    unfolding inputSchemaRoute_merged [OF rs pw aw]
    using absent
    by (simp add: primaryInitialState_cases assessmentInstanceInitialState_def split: option.splits)
next
  assume h: "instanceId = Some i \<and> i \<noteq> [] \<and> fetchProcessInstanceVariables services i = Inr pv \<and>
    (pv = None \<or> (\<exists>variables. pv = Some variables \<and> \<not> truthy (property variables WORKFLOW_DATA_KEY))) \<and>
    (assessmentInstanceId = None \<or> assessmentInstanceId = Some [])"
  then have pw: "instanceWorkflowData services instanceId =
      (Inr (case pv of None \<Rightarrow> None | Some variables \<Rightarrow> property variables WORKFLOW_DATA_KEY), [FetchProcessInstanceVariables i])"
    by (intro instanceWorkflowData_returned) simp_all
  from h have aw: "instanceWorkflowData services assessmentInstanceId = (Inr None, [])"
    by (intro instanceWorkflowData_no_id) simp
  from h have absent: "\<not> truthy (case pv of None \<Rightarrow> None | Some variables \<Rightarrow> property variables WORKFLOW_DATA_KEY)"
    by auto
  show "inputSchemaRoute services workflowId instanceId assessmentInstanceId =
       (Sent 200
          (Json (response\<lparr>schemas := parsed,
                   initialState := \<lparr>state_values = [], readonlyKeys = []\<rparr>\<rparr>)),
        c1 @ [FetchProcessInstanceVariables i])"
    unfolding inputSchemaRoute_merged [OF rs pw aw]
    using absent
    by (simp add: primaryInitialState_cases assessmentInstanceInitialState_def merge_def)
next
  assume h: "assessmentInstanceId = Some j \<and> j \<noteq> [] \<and> fetchProcessInstanceVariables services j = Inr av \<and>
    (av = None \<or> (\<exists>variables. av = Some variables \<and> \<not> truthy (property variables WORKFLOW_DATA_KEY))) \<and>
    instanceId = Some i \<and> i \<noteq> [] \<and> fetchProcessInstanceVariables services i = Inr pv"
  then have pw: "instanceWorkflowData services instanceId =
      (Inr (case pv of None \<Rightarrow> None | Some variables \<Rightarrow> property variables WORKFLOW_DATA_KEY), [FetchProcessInstanceVariables i])"
    by (intro instanceWorkflowData_returned) simp_all
  from h have aw: "instanceWorkflowData services assessmentInstanceId =
      (Inr (case av of None \<Rightarrow> None | Some variables \<Rightarrow> property variables WORKFLOW_DATA_KEY), [FetchProcessInstanceVariables j])"
    by (intro instanceWorkflowData_returned) simp_all
  from h have absent: "\<not> truthy (case av of None \<Rightarrow> None | Some variables \<Rightarrow> property variables WORKFLOW_DATA_KEY)"
    by auto
  show "inputSchemaRoute services workflowId instanceId assessmentInstanceId =
       (Sent 200
          (Json (response\<lparr>schemas := parsed,
                   initialState :=
                     \<lparr>state_values =
                        (case (case pv of None \<Rightarrow> None | Some variables \<Rightarrow> property variables WORKFLOW_DATA_KEY) of
                           None \<Rightarrow> []
                         | Some d \<Rightarrow>
                             if truthy (Some d)
                             then extractInitialStateFromWorkflowData services d parsed
                             else []),
                      readonlyKeys = []\<rparr>\<rparr>)),
        c1 @ [FetchProcessInstanceVariables i] @
        (case (case pv of None \<Rightarrow> None | Some variables \<Rightarrow> property variables WORKFLOW_DATA_KEY) of
           None \<Rightarrow> []
         | Some d \<Rightarrow> if truthy (Some d) then [ExtractInitialStateFromWorkflowData d] else []) @
        [FetchProcessInstanceVariables j])"
    unfolding inputSchemaRoute_merged [OF rs pw aw]
    using absent
    by (simp add: primaryInitialState_def assessmentInstanceInitialState_cases merge_def
          split: option.splits)
next
  assume h: "assessmentInstanceId = Some j \<and> j \<noteq> [] \<and> fetchProcessInstanceVariables services j = Inr av \<and>
    (av = None \<or> (\<exists>variables. av = Some variables \<and> \<not> truthy (property variables WORKFLOW_DATA_KEY))) \<and>
    (instanceId = None \<or> instanceId = Some [])"
  then have aw: "instanceWorkflowData services assessmentInstanceId =
      (Inr (case av of None \<Rightarrow> None | Some variables \<Rightarrow> property variables WORKFLOW_DATA_KEY), [FetchProcessInstanceVariables j])"
    by (intro instanceWorkflowData_returned) simp_all
  from h have pw: "instanceWorkflowData services instanceId = (Inr None, [])"
    by (intro instanceWorkflowData_no_id) simp
  from h have absent: "\<not> truthy (case av of None \<Rightarrow> None | Some variables \<Rightarrow> property variables WORKFLOW_DATA_KEY)"
    by auto
  show "inputSchemaRoute services workflowId instanceId assessmentInstanceId =
       (Sent 200
          (Json (response\<lparr>schemas := parsed,
                   initialState := \<lparr>state_values = [], readonlyKeys = []\<rparr>\<rparr>)),
        c1 @ [FetchProcessInstanceVariables j])"
    unfolding inputSchemaRoute_merged [OF rs pw aw]
    using absent
    by (simp add: primaryInitialState_def assessmentInstanceInitialState_cases merge_def)
qed

text \<open>
  Instances of C6 at the scenario schema. The primary instance \<open>gone\<close> is unknown (the
  lookup returns \<open>undefined\<close>), or the variables of the primary instance \<open>nokey\<close> have
  nothing under the workflow-data key, and the assessment instance holds
  \<open>{age: 30, email: "a@x.com"}\<close>. The primary instance holds \<open>{name: "Ann"}\<close> and the
  variables of the assessment instance hold \<open>null\<close> under the key. Only one instance id
  is given, and its lookup returns absent.
\<close>

theorem inputSchemaRoute_absent_instance_data_witness:
  "inputSchemaRoute (scenarioServices (Some ''http://svc'') (Some withInputSchema) (Some ''wf.sw.yaml'')
        (Some twoFragments) scenarioInstances) ''wf'' (Some ''gone'') (Some ''a2'') =
     (Sent 200
        (Json \<lparr>workflowItem = \<lparr>item_uri = ''wf.sw.yaml'', item_definition = withInputSchema\<rparr>,
               schemas = [personal, contact],
               initialState = \<lparr>state_values = [[thirty], [mail]], readonlyKeys = [''age'', ''email'']\<rparr>\<rparr>),
      [GetWorkflowDefinition ''wf'', FetchWorkflowDefinition ''wf'', FetchWorkflowUri ''wf'',
       FetchWorkflowInfo ''wf'' ''http://svc'', ParseComposition,
       FetchProcessInstanceVariables ''gone'', FetchProcessInstanceVariables ''a2'',
       ExtractInitialStateFromWorkflowData (JObject [thirty, mail])])
   \<and> inputSchemaRoute (scenarioServices (Some ''http://svc'') (Some withInputSchema) (Some ''wf.sw.yaml'')
        (Some twoFragments) scenarioInstances) ''wf'' (Some ''nokey'') (Some ''a2'') =
     (Sent 200
        (Json \<lparr>workflowItem = \<lparr>item_uri = ''wf.sw.yaml'', item_definition = withInputSchema\<rparr>,
               schemas = [personal, contact],
               initialState = \<lparr>state_values = [[thirty], [mail]], readonlyKeys = [''age'', ''email'']\<rparr>\<rparr>),
      [GetWorkflowDefinition ''wf'', FetchWorkflowDefinition ''wf'', FetchWorkflowUri ''wf'',
       FetchWorkflowInfo ''wf'' ''http://svc'', ParseComposition,
       FetchProcessInstanceVariables ''nokey'', FetchProcessInstanceVariables ''a2'',
       ExtractInitialStateFromWorkflowData (JObject [thirty, mail])])
   \<and> inputSchemaRoute (scenarioServices (Some ''http://svc'') (Some withInputSchema) (Some ''wf.sw.yaml'')
        (Some twoFragments) scenarioInstances) ''wf'' (Some ''p1'') (Some ''null'') =
     (Sent 200
        (Json \<lparr>workflowItem = \<lparr>item_uri = ''wf.sw.yaml'', item_definition = withInputSchema\<rparr>,
               schemas = [personal, contact],
               initialState = \<lparr>state_values = [[ann], []], readonlyKeys = []\<rparr>\<rparr>),
      [GetWorkflowDefinition ''wf'', FetchWorkflowDefinition ''wf'', FetchWorkflowUri ''wf'',
       FetchWorkflowInfo ''wf'' ''http://svc'', ParseComposition,
       FetchProcessInstanceVariables ''p1'', ExtractInitialStateFromWorkflowData (JObject [ann]),
       FetchProcessInstanceVariables ''null''])
   \<and> inputSchemaRoute (scenarioServices (Some ''http://svc'') (Some withInputSchema) (Some ''wf.sw.yaml'')
        (Some twoFragments) scenarioInstances) ''wf'' (Some ''nokey'') None =
     (Sent 200
        (Json \<lparr>workflowItem = \<lparr>item_uri = ''wf.sw.yaml'', item_definition = withInputSchema\<rparr>,
               schemas = [personal, contact],
               initialState = \<lparr>state_values = [], readonlyKeys = []\<rparr>\<rparr>),
      [GetWorkflowDefinition ''wf'', FetchWorkflowDefinition ''wf'', FetchWorkflowUri ''wf'',
       FetchWorkflowInfo ''wf'' ''http://svc'', ParseComposition,
       FetchProcessInstanceVariables ''nokey''])
   \<and> inputSchemaRoute (scenarioServices (Some ''http://svc'') (Some withInputSchema) (Some ''wf.sw.yaml'')
        (Some twoFragments) scenarioInstances) ''wf'' None (Some ''gone'') =
     (Sent 200
        (Json \<lparr>workflowItem = \<lparr>item_uri = ''wf.sw.yaml'', item_definition = withInputSchema\<rparr>,
               schemas = [personal, contact],
               initialState = \<lparr>state_values = [], readonlyKeys = []\<rparr>\<rparr>),
      [GetWorkflowDefinition ''wf'', FetchWorkflowDefinition ''wf'', FetchWorkflowUri ''wf'',
       FetchWorkflowInfo ''wf'' ''http://svc'', ParseComposition,
       FetchProcessInstanceVariables ''gone''])"
proof (intro conjI)
  show "inputSchemaRoute (scenarioServices (Some ''http://svc'') (Some withInputSchema) (Some ''wf.sw.yaml'')
        (Some twoFragments) scenarioInstances) ''wf'' (Some ''gone'') (Some ''a2'') =
     (Sent 200
        (Json \<lparr>workflowItem = \<lparr>item_uri = ''wf.sw.yaml'', item_definition = withInputSchema\<rparr>,
               schemas = [personal, contact],
               initialState = \<lparr>state_values = [[thirty], [mail]], readonlyKeys = [''age'', ''email'']\<rparr>\<rparr>),
      [GetWorkflowDefinition ''wf'', FetchWorkflowDefinition ''wf'', FetchWorkflowUri ''wf'',
       FetchWorkflowInfo ''wf'' ''http://svc'', ParseComposition,
       FetchProcessInstanceVariables ''gone'', FetchProcessInstanceVariables ''a2'',
       ExtractInitialStateFromWorkflowData (JObject [thirty, mail])])"
    using inputSchemaRoute_absent_instance_data
      [OF scenario_resolveSchemas,
       where i = "''gone''" and pv = "None" and j = "''a2''" and av = "Some (variablesWith [thirty, mail])"
         and instanceId = "Some ''gone''" and assessmentInstanceId = "Some ''a2''"]
    by (simp add: scenario_defs state_defs)
  show "inputSchemaRoute (scenarioServices (Some ''http://svc'') (Some withInputSchema) (Some ''wf.sw.yaml'')
        (Some twoFragments) scenarioInstances) ''wf'' (Some ''nokey'') (Some ''a2'') =
     (Sent 200
        (Json \<lparr>workflowItem = \<lparr>item_uri = ''wf.sw.yaml'', item_definition = withInputSchema\<rparr>,
               schemas = [personal, contact],
               initialState = \<lparr>state_values = [[thirty], [mail]], readonlyKeys = [''age'', ''email'']\<rparr>\<rparr>),
      [GetWorkflowDefinition ''wf'', FetchWorkflowDefinition ''wf'', FetchWorkflowUri ''wf'',
       FetchWorkflowInfo ''wf'' ''http://svc'', ParseComposition,
       FetchProcessInstanceVariables ''nokey'', FetchProcessInstanceVariables ''a2'',
       ExtractInitialStateFromWorkflowData (JObject [thirty, mail])])"
    using inputSchemaRoute_absent_instance_data
      [OF scenario_resolveSchemas,
       where i = "''nokey''" and pv = "Some [(''other'', Some (JNumber 1))]" and j = "''a2''" and av = "Some (variablesWith [thirty, mail])"
         and instanceId = "Some ''nokey''" and assessmentInstanceId = "Some ''a2''"]
    by (simp add: scenario_defs state_defs)
  show "inputSchemaRoute (scenarioServices (Some ''http://svc'') (Some withInputSchema) (Some ''wf.sw.yaml'')
        (Some twoFragments) scenarioInstances) ''wf'' (Some ''p1'') (Some ''null'') =
     (Sent 200
        (Json \<lparr>workflowItem = \<lparr>item_uri = ''wf.sw.yaml'', item_definition = withInputSchema\<rparr>,
               schemas = [personal, contact],
               initialState = \<lparr>state_values = [[ann], []], readonlyKeys = []\<rparr>\<rparr>),
      [GetWorkflowDefinition ''wf'', FetchWorkflowDefinition ''wf'', FetchWorkflowUri ''wf'',
       FetchWorkflowInfo ''wf'' ''http://svc'', ParseComposition,
       FetchProcessInstanceVariables ''p1'', ExtractInitialStateFromWorkflowData (JObject [ann]),
       FetchProcessInstanceVariables ''null''])"
    using inputSchemaRoute_absent_instance_data
      [OF scenario_resolveSchemas,
       where i = "''p1''" and pv = "Some (variablesWith [ann])" and j = "''null''" and av = "Some [(WORKFLOW_DATA_KEY, Some JNull)]"
         and instanceId = "Some ''p1''" and assessmentInstanceId = "Some ''null''"]
    by (simp add: scenario_defs state_defs)
  show "inputSchemaRoute (scenarioServices (Some ''http://svc'') (Some withInputSchema) (Some ''wf.sw.yaml'')
        (Some twoFragments) scenarioInstances) ''wf'' (Some ''nokey'') None =
     (Sent 200
        (Json \<lparr>workflowItem = \<lparr>item_uri = ''wf.sw.yaml'', item_definition = withInputSchema\<rparr>,
               schemas = [personal, contact],
               initialState = \<lparr>state_values = [], readonlyKeys = []\<rparr>\<rparr>),
      [GetWorkflowDefinition ''wf'', FetchWorkflowDefinition ''wf'', FetchWorkflowUri ''wf'',
       FetchWorkflowInfo ''wf'' ''http://svc'', ParseComposition,
       FetchProcessInstanceVariables ''nokey''])"
    using inputSchemaRoute_absent_instance_data
      [OF scenario_resolveSchemas,
       where i = "''nokey''" and pv = "Some [(''other'', Some (JNumber 1))]" and j = "''a2''" and av = "None"
         and instanceId = "Some ''nokey''" and assessmentInstanceId = "None"]
    by (simp add: scenario_defs state_defs)
  show "inputSchemaRoute (scenarioServices (Some ''http://svc'') (Some withInputSchema) (Some ''wf.sw.yaml'')
        (Some twoFragments) scenarioInstances) ''wf'' None (Some ''gone'') =
     (Sent 200
        (Json \<lparr>workflowItem = \<lparr>item_uri = ''wf.sw.yaml'', item_definition = withInputSchema\<rparr>,
               schemas = [personal, contact],
               initialState = \<lparr>state_values = [], readonlyKeys = []\<rparr>\<rparr>),
      [GetWorkflowDefinition ''wf'', FetchWorkflowDefinition ''wf'', FetchWorkflowUri ''wf'',
       FetchWorkflowInfo ''wf'' ''http://svc'', ParseComposition,
       FetchProcessInstanceVariables ''gone''])"
    using inputSchemaRoute_absent_instance_data
      [OF scenario_resolveSchemas,
       where i = "''p1''" and pv = "None" and j = "''gone''" and av = "None"
         and instanceId = "None" and assessmentInstanceId = "Some ''gone''"]
    by (simp add: scenario_defs state_defs)
qed

section \<open>Results: notifications\<close>

subsection \<open>Helper facts\<close>




lemma checkRefs_None_iff:
  "checkRefs catalogClient kind names = None \<longleftrightarrow>
     (\<forall>n\<in>set names. catalogClient (kind @ '':'' @ n) \<noteq> None)"
proof (cases "find (\<lambda>n. catalogClient (kind @ '':'' @ n) = None) names")
  case None
  then have "checkRefs catalogClient kind names = None"
    by (simp add: checkRefs_def)
  moreover from None
  have "\<forall>n\<in>set names. catalogClient (kind @ '':'' @ n) \<noteq> None"
    by (simp add: find_None_iff)
  ultimately show ?thesis by simp
next
  case (Some n)
  then have "n \<in> set names \<and> catalogClient (kind @ '':'' @ n) = None"
    by (auto simp: find_Some_iff)
  with Some show ?thesis by (auto simp: checkRefs_def)
qed

lemma createNotification_rejected:
  assumes "checkRefs catalogClient ''group'' (case req_targetGroups req of None \<Rightarrow> [] | Some gs \<Rightarrow> gs) \<noteq> None
           \<or> checkRefs catalogClient ''user'' (case req_targetUsers req of None \<Rightarrow> [] | Some us \<Rightarrow> us) \<noteq> None"
  shows "\<exists>e. createNotification fresh catalogClient req messages = (Inl e, messages)"
  using assms
  by (auto simp: createNotification_def checkRefs_def split: option.splits)

lemma createNotification_accepted:
  assumes "checkRefs catalogClient ''group'' (case req_targetGroups req of None \<Rightarrow> [] | Some gs \<Rightarrow> gs) = None"
    and "checkRefs catalogClient ''user'' (case req_targetUsers req of None \<Rightarrow> [] | Some us \<Rightarrow> us) = None"
  shows "createNotification fresh catalogClient req messages =
           (Inr (fst (fresh messages)),
            messages @
              [\<lparr>msg_id = fst (fresh messages), msg_created = snd (fresh messages),
                msg_origin = req_origin req, msg_title = req_title req,
                msg_message = req_message req, msg_topic = req_topic req\<rparr>])"
  using assms
  by (auto simp: createNotification_def insert_returning_id_def split: option.splits prod.splits)

subsection \<open>The claims\<close>



text \<open>
  C9. \<open>createNotification\<close> checks every entry of \<open>targetGroups\<close> and of \<open>targetUsers\<close>
  against the catalog before it inserts. If a referenced group or user is missing, it
  throws and the table is as it was. Otherwise it appends exactly one row, built from
  the request, and returns that row's id.
\<close>

theorem createNotification_validates_before_insert:
  "((\<exists>g\<in>set (case req_targetGroups req of None \<Rightarrow> [] | Some gs \<Rightarrow> gs).
        catalogClient (''group:'' @ g) = None) \<or>
    (\<exists>u\<in>set (case req_targetUsers req of None \<Rightarrow> [] | Some us \<Rightarrow> us).
        catalogClient (''user:'' @ u) = None)
    \<longrightarrow> (\<exists>e. createNotification fresh catalogClient req messages = (Inl e, messages)))
   \<and>
   ((\<forall>g\<in>set (case req_targetGroups req of None \<Rightarrow> [] | Some gs \<Rightarrow> gs).
        catalogClient (''group:'' @ g) \<noteq> None) \<and>
    (\<forall>u\<in>set (case req_targetUsers req of None \<Rightarrow> [] | Some us \<Rightarrow> us).
        catalogClient (''user:'' @ u) \<noteq> None)
    \<longrightarrow> (\<exists>row. createNotification fresh catalogClient req messages =
                 (Inr (msg_id row), messages @ [row])
              \<and> msg_origin row = req_origin req \<and> msg_title row = req_title req
              \<and> msg_message row = req_message req \<and> msg_topic row = req_topic req))"
proof (intro conjI impI)
  assume "(\<exists>g\<in>set (case req_targetGroups req of None \<Rightarrow> [] | Some gs \<Rightarrow> gs).
             catalogClient (''group:'' @ g) = None) \<or>
          (\<exists>u\<in>set (case req_targetUsers req of None \<Rightarrow> [] | Some us \<Rightarrow> us).
             catalogClient (''user:'' @ u) = None)"
  then have "checkRefs catalogClient ''group'' (case req_targetGroups req of None \<Rightarrow> [] | Some gs \<Rightarrow> gs) \<noteq> None
           \<or> checkRefs catalogClient ''user'' (case req_targetUsers req of None \<Rightarrow> [] | Some us \<Rightarrow> us) \<noteq> None"
    unfolding checkRefs_None_iff by auto
  then show "\<exists>e. createNotification fresh catalogClient req messages = (Inl e, messages)"
    by (rule createNotification_rejected)
next
  assume ok: "(\<forall>g\<in>set (case req_targetGroups req of None \<Rightarrow> [] | Some gs \<Rightarrow> gs).
                 catalogClient (''group:'' @ g) \<noteq> None) \<and>
              (\<forall>u\<in>set (case req_targetUsers req of None \<Rightarrow> [] | Some us \<Rightarrow> us).
                 catalogClient (''user:'' @ u) \<noteq> None)"
  have g: "checkRefs catalogClient ''group'' (case req_targetGroups req of None \<Rightarrow> [] | Some gs \<Rightarrow> gs) = None"
    unfolding checkRefs_None_iff using ok by simp
  have u: "checkRefs catalogClient ''user'' (case req_targetUsers req of None \<Rightarrow> [] | Some us \<Rightarrow> us) = None"
    unfolding checkRefs_None_iff using ok by simp
  show "\<exists>row. createNotification fresh catalogClient req messages =
                 (Inr (msg_id row), messages @ [row])
              \<and> msg_origin row = req_origin req \<and> msg_title row = req_title req
              \<and> msg_message row = req_message req \<and> msg_topic row = req_topic req"
    unfolding createNotification_accepted [OF g u]
    by (rule exI [of _ "\<lparr>msg_id = fst (fresh messages), msg_created = snd (fresh messages),
                msg_origin = req_origin req, msg_title = req_title req,
                msg_message = req_message req, msg_topic = req_topic req\<rparr>"]) simp
qed

text \<open>
  Two instances of C9 on the catalog that knows the group \<open>ops\<close> and the user \<open>ann\<close>
  only: a request for the unknown user \<open>bob\<close> throws and leaves the empty table empty; a
  request for \<open>ops\<close> and \<open>ann\<close> inserts one row.
\<close>

theorem createNotification_validates_before_insert_witness:
  "(\<exists>e. createNotification (\<lambda>ms. (''id-1'', 7))
          (\<lambda>r. if r = ''group:ops'' \<or> r = ''user:ann'' then Some () else None)
          \<lparr>req_origin = ''ci'', req_title = ''build'', req_message = None, req_actions = None,
            req_topic = None, req_targetUsers = Some [''ann'', ''bob''], req_targetGroups = Some [''ops'']\<rparr>
          [] = (Inl e, []))
   \<and>
   (\<exists>row. createNotification (\<lambda>ms. (''id-1'', 7))
          (\<lambda>r. if r = ''group:ops'' \<or> r = ''user:ann'' then Some () else None)
          \<lparr>req_origin = ''ci'', req_title = ''build'', req_message = None, req_actions = None,
            req_topic = None, req_targetUsers = Some [''ann''], req_targetGroups = Some [''ops'']\<rparr>
          [] = (Inr (msg_id row), [row]) \<and> msg_title row = ''build'')"
proof
  show "\<exists>e. createNotification (\<lambda>ms. (''id-1'', 7))
          (\<lambda>r. if r = ''group:ops'' \<or> r = ''user:ann'' then Some () else None)
          \<lparr>req_origin = ''ci'', req_title = ''build'', req_message = None, req_actions = None,
            req_topic = None, req_targetUsers = Some [''ann'', ''bob''], req_targetGroups = Some [''ops'']\<rparr>
          [] = (Inl e, [])"
    using createNotification_validates_before_insert
      [of "\<lparr>req_origin = ''ci'', req_title = ''build'', req_message = None, req_actions = None,
            req_topic = None, req_targetUsers = Some [''ann'', ''bob''], req_targetGroups = Some [''ops'']\<rparr>"
          "\<lambda>r. if r = ''group:ops'' \<or> r = ''user:ann'' then Some () else None"
          "\<lambda>ms. (''id-1'', 7)" "[]"]
    by simp
  show "\<exists>row. createNotification (\<lambda>ms. (''id-1'', 7))
          (\<lambda>r. if r = ''group:ops'' \<or> r = ''user:ann'' then Some () else None)
          \<lparr>req_origin = ''ci'', req_title = ''build'', req_message = None, req_actions = None,
            req_topic = None, req_targetUsers = Some [''ann''], req_targetGroups = Some [''ops'']\<rparr>
          [] = (Inr (msg_id row), [row]) \<and> msg_title row = ''build''"
    using createNotification_validates_before_insert
      [of "\<lparr>req_origin = ''ci'', req_title = ''build'', req_message = None, req_actions = None,
            req_topic = None, req_targetUsers = Some [''ann''], req_targetGroups = Some [''ops'']\<rparr>"
          "\<lambda>r. if r = ''group:ops'' \<or> r = ''user:ann'' then Some () else None"
          "\<lambda>ms. (''id-1'', 7)" "[]"]
    by auto
qed

text \<open>
  C10. Every notification that \<open>getNotifications\<close> returns has \<open>readByUser = false\<close>,
  whatever the stored rows hold.
\<close>

theorem getNotifications_readByUser_false:
  "getNotifications dbClient filter' pageSize pageNumber = Inr ns \<Longrightarrow> n \<in> set ns \<Longrightarrow> \<not> readByUser n"
  by (auto simp: getNotifications_def toNotification_def split: if_splits)

text \<open>
  The instance of C10 on a table of one row, read without paging.
\<close>

theorem getNotifications_readByUser_false_witness:
  "getNotifications (\<lambda>q. [\<lparr>msg_id = ''m'', msg_created = 5, msg_origin = ''o'',
       msg_title = ''t'', msg_message = Some ''read me'', msg_topic = None\<rparr>])
     \<lparr>containsText = None, createdAfter = None\<rparr> (Finite 0) (Finite 0) =
     Inr [\<lparr>ntf_id = ''m'', ntf_created = 5, readByUser = False, ntf_origin = ''o'',
           ntf_title = ''t'', ntf_message = Some ''read me'', ntf_topic = None\<rparr>]
   \<and> \<not> readByUser \<lparr>ntf_id = ''m'', ntf_created = 5, readByUser = False, ntf_origin = ''o'',
           ntf_title = ''t'', ntf_message = Some ''read me'', ntf_topic = None\<rparr>"
proof -
  have run: "getNotifications (\<lambda>q. [\<lparr>msg_id = ''m'', msg_created = 5, msg_origin = ''o'',
       msg_title = ''t'', msg_message = Some ''read me'', msg_topic = None\<rparr>])
     \<lparr>containsText = None, createdAfter = None\<rparr> (Finite 0) (Finite 0) =
     Inr [\<lparr>ntf_id = ''m'', ntf_created = 5, readByUser = False, ntf_origin = ''o'',
           ntf_title = ''t'', ntf_message = Some ''read me'', ntf_topic = None\<rparr>]"
    by (simp add: getNotifications_def getNotifications_query_def toNotification_def)
  from getNotifications_readByUser_false [OF run] run show ?thesis by simp
qed

end
